theory Spec2Isabelle
  imports Main "HOL-Library.Sublist"
begin

section \<open>Values shared by both backends\<close>

text \<open>
  The classes that the source compares with \<open>issubclass\<close> and \<open>isinstance\<close>:
  the base class \<open>Team\<close>, the two backends of \<open>github.py\<close> and \<open>stash.py\<close>
  (both declared \<open>class ...(Team)\<close>), and any further class \<open>SubC name parent\<close>
  derived by single inheritance.
\<close>

datatype cls = TeamC | GitHubOrganizationC | StashTeamC | SubC string cls

fun issubclass :: "cls \<Rightarrow> cls \<Rightarrow> bool" where
  "issubclass (SubC n p) d = (SubC n p = d \<or> issubclass p d)"
| "issubclass TeamC d = (d = TeamC)"
| "issubclass GitHubOrganizationC d = (d = GitHubOrganizationC \<or> d = TeamC)"
| "issubclass StashTeamC d = (d = StashTeamC \<or> d = TeamC)"

text \<open>
  \<open>Identity.access_token\<close> is a plain string for GitHub and a pair
  \<open>(token, secret)\<close> for Bitbucket Server.
\<close>

datatype access_token = Bearer string | TokenPair string string

record identity =
  team_type :: cls
  "identifier" :: string
  access_token :: access_token

text \<open>Decoded JSON, as \<open>json.load\<close> returns it (numbers restricted to integers).\<close>

datatype json =
    JNull
  | JBool bool
  | JNum int
  | JStr string
  | JArr "json list"
  | JObj "(string \<times> json) list"

text \<open>
  An HTTP answer: status, \<open>Content-Type\<close> header and body text.  \<open>truncated\<close> says
  that the connection is cut before the body is complete, so that the status and the
  headers arrive but reading the body fails.
\<close>

record http_response =
  code :: nat
  content_type :: "string option"
  body :: string
  truncated :: bool

text \<open>
  Every exception the modelled code can raise or let through.  \<open>HTTPError\<close> carries
  the answer it was raised for; \<open>BadStatusLine\<close> and \<open>IncompleteRead\<close> are the
  exceptions of \<open>http.client\<close>.
\<close>

datatype error =
    AuthenticationError "string option"
  | DuplicatePublicKeyError json
  | URLError
  | HTTPError http_response
  | BadStatusLine
  | IncompleteRead
  | KeyError
  | TypeError
  | ValueError
  | AttributeError
  | AssertionError
  | IndexError
  | ParseError

text \<open>
  \<open>except IOError\<close>: \<open>urllib.error.URLError\<close> derives from \<open>OSError\<close>
  (which \<open>IOError\<close> names), and \<open>HTTPError\<close> from \<open>URLError\<close>.  The exceptions
  of \<open>http.client\<close> derive from \<open>HTTPException\<close>, which is no \<open>OSError\<close>.
\<close>

fun is_IOError :: "error \<Rightarrow> bool" where
  "is_IOError URLError = True"
| "is_IOError (HTTPError r) = True"
| "is_IOError e = False"

fun is_AuthenticationError :: "error \<Rightarrow> bool" where
  "is_AuthenticationError (AuthenticationError m) = True"
| "is_AuthenticationError e = False"

subsection \<open>Python's dynamic operations on decoded JSON\<close>

text \<open>\<open>x[k]\<close> with a string key: only a dict accepts it.\<close>

fun subscript :: "json \<Rightarrow> string \<Rightarrow> error + json" where
  "subscript (JObj kvs) k = (case map_of kvs k of None \<Rightarrow> Inl KeyError | Some v \<Rightarrow> Inr v)"
| "subscript j k = Inl TypeError"

text \<open>\<open>xs[0]\<close>: the first element of a list, the first character of a string.\<close>

fun first_item :: "json \<Rightarrow> error + json" where
  "first_item (JArr []) = Inl IndexError"
| "first_item (JArr (x # xs)) = Inr x"
| "first_item (JStr []) = Inl IndexError"
| "first_item (JStr (c # cs)) = Inr (JStr [c])"
| "first_item (JObj kvs) = Inl KeyError"
| "first_item j = Inl TypeError"

text \<open>
  \<open>for x in v\<close> and \<open>yield from v\<close>: a list gives its elements, a dict its keys,
  a string its characters; nothing else is iterable.
\<close>

fun iterate :: "json \<Rightarrow> error + json list" where
  "iterate (JArr xs) = Inr xs"
| "iterate (JObj kvs) = Inr (map (\<lambda>kv. JStr (fst kv)) kvs)"
| "iterate (JStr s) = Inr (map (\<lambda>c. JStr [c]) s)"
| "iterate j = Inl TypeError"

text \<open>The truth value \<open>if v:\<close> tests.\<close>

fun truthy :: "json \<Rightarrow> bool" where
  "truthy JNull = False"
| "truthy (JBool b) = b"
| "truthy (JNum n) = (n \<noteq> 0)"
| "truthy (JStr s) = (s \<noteq> [])"
| "truthy (JArr xs) = (xs \<noteq> [])"
| "truthy (JObj kvs) = (kvs \<noteq> [])"

subsection \<open>The network\<close>

text \<open>
  The client \<open>oauthlib.oauth1.Client\<close> that \<open>StashTeam.create_client\<close> builds;
  the RSA signature it adds to a request is kept as the client that made it.
\<close>

record oauth_client =
  client_key :: string
  client_rsa_key :: string
  resource_owner_key :: "string option"
  resource_owner_secret :: "string option"

record http_request =
  rq_method :: string
  rq_url :: string
  rq_data :: "string option"
  rq_headers :: "(string \<times> string) list"
  rq_signed_by :: "oauth_client option"

text \<open>
  What the provider does with one request: the connection fails (it is refused, times
  out, or is closed before any answer), something that is not an HTTP status line
  comes back, or an answer arrives.  A run of the program is decided by the answers it
  is given, in order, so the world is the list of answers still to come and the list of
  the requests sent so far.  With no answer left the connection fails.
\<close>

datatype net_event = ConnectionFailed | BadStatus | Answer http_response

record world =
  incoming :: "net_event list"
  sent :: "http_request list"

text \<open>
  \<open>urllib.request.urlopen\<close>: a connection failure raises \<open>URLError\<close>, a garbled
  status line raises \<open>http.client.BadStatusLine\<close>, a status outside 200..299 raises
  \<open>HTTPError\<close>.  An answer is the one that arrives after any redirect has been
  followed.
\<close>

fun urlopen :: "http_request \<Rightarrow> world \<Rightarrow> (error + http_response) \<times> world" where
  "urlopen rq w =
     (case incoming w of
        [] \<Rightarrow> (Inl URLError, w\<lparr>sent := sent w @ [rq]\<rparr>)
      | ConnectionFailed # es \<Rightarrow>
          (Inl URLError, \<lparr>incoming = es, sent = sent w @ [rq]\<rparr>)
      | BadStatus # es \<Rightarrow>
          (Inl BadStatusLine, \<lparr>incoming = es, sent = sent w @ [rq]\<rparr>)
      | Answer r # es \<Rightarrow>
          (if 200 \<le> code r \<and> code r < 300 then Inr r else Inl (HTTPError r),
           \<lparr>incoming = es, sent = sent w @ [rq]\<rparr>))"

text \<open>
  Reading the body of an answer (\<open>response.read()\<close>, and the reads that
  \<open>json.load\<close> and \<open>url_decode_stream\<close> make): a body cut short raises
  \<open>http.client.IncompleteRead\<close>.
\<close>

definition read_body :: "http_response \<Rightarrow> error + string" where
  "read_body r = (if truncated r then Inl IncompleteRead else Inr (body r))"

text \<open>
  Modelled from the spec: the class \<open>PublicKey\<close> of \<open>geofront.keystore\<close>, which
  \<open>github.py\<close> imports, is not among the sources.  The spec's data model gives it an
  algorithm, the key material and a comment, with equality over algorithm and material
  only.
\<close>

record public_key =
  algorithm :: string
  material :: string
  comment :: "string option"

definition pk_eq :: "public_key \<Rightarrow> public_key \<Rightarrow> bool" where
  "pk_eq a b = (algorithm a = algorithm b \<and> material a = material b)"

text \<open>
  Functions of libraries outside the repository (\<open>json\<close>, \<open>werkzeug\<close>) and of the
  sibling module \<open>geofront.keystore\<close>, taken as parameters.  \<open>None\<close> stands for the
  exception the function raises on input it rejects.  \<open>'k\<close> is the type of parsed keys
  with its own equality (\<open>paramiko.pkey.PKey\<close> compares algorithm and key material).
\<close>

record 'k lib =
  json_loads :: "string \<Rightarrow> json option"
  json_dumps :: "json \<Rightarrow> string"
  url_decode_stream :: "string \<Rightarrow> (string \<times> string) list"
  url_encode :: "(string \<times> string) list \<Rightarrow> string"
  parse_options_header :: "string option \<Rightarrow> string \<times> (string \<times> string) list"
  py_repr :: "json \<Rightarrow> string"
  parse_openssh_pubkey :: "string \<Rightarrow> 'k option"
  format_openssh_pubkey :: "'k \<Rightarrow> string"
  parse_line :: "string \<Rightarrow> public_key option"
  str_of_key :: "public_key \<Rightarrow> string"

section \<open>\<open>geofront.backends.stash\<close>: the team\<close>

record stash_team =
  team_cls :: cls
  server_url :: string
  consumer_key :: string
  rsa_key :: string

definition rstrip_slash :: "string \<Rightarrow> string" where
  "rstrip_slash s = rev (dropWhile (\<lambda>c. c = CHR ''/'') (rev s))"

text \<open>\<open>StashTeam.__init__\<close>; \<open>c\<close> is the class being instantiated.\<close>

definition StashTeam_init :: "cls \<Rightarrow> string \<Rightarrow> string \<Rightarrow> string \<Rightarrow> stash_team" where
  "StashTeam_init c url key rsa =
     \<lparr>team_cls = c, server_url = rstrip_slash url, consumer_key = key, rsa_key = rsa\<rparr>"

definition create_client :: "stash_team \<Rightarrow> string option \<Rightarrow> string option \<Rightarrow> oauth_client" where
  "create_client self owner_key owner_secret =
     \<lparr>client_key = consumer_key self, client_rsa_key = rsa_key self,
      resource_owner_key = owner_key, resource_owner_secret = owner_secret\<rparr>"

text \<open>\<open>StashTeam.request\<close>: sign, then \<open>urlopen\<close>.\<close>

definition team_request ::
  "stash_team \<Rightarrow> string \<Rightarrow> string \<Rightarrow> string option \<Rightarrow> (string \<times> string) list \<Rightarrow>
   string option \<Rightarrow> string option \<Rightarrow> world \<Rightarrow> (error + http_response) \<times> world" where
  "team_request self method url bdy hdrs owner_key owner_secret w =
     urlopen \<lparr>rq_method = method, rq_url = url, rq_data = bdy, rq_headers = hdrs,
              rq_signed_by = Some (create_client self owner_key owner_secret)\<rparr> w"

text \<open>
  The continuation state handed back to \<open>authenticate\<close>: whatever the caller kept.
  \<open>request_authentication\<close> makes a pair of strings; a caller may also pass
  \<open>None\<close>, a string (the nonce of the other backend) or a sequence of another length.
\<close>

datatype pystate = PyNone | PyStr string | PySeq "string list"

text \<open>\<open>oauth_token, oauth_token_secret = state\<close>\<close>

fun unpack_pair :: "pystate \<Rightarrow> error + (string \<times> string)" where
  "unpack_pair PyNone = Inl TypeError"
| "unpack_pair (PyStr [a, b]) = Inr ([a], [b])"
| "unpack_pair (PyStr s) = Inl ValueError"
| "unpack_pair (PySeq [a, b]) = Inr (a, b)"
| "unpack_pair (PySeq xs) = Inl ValueError"

text \<open>\<open>d[k]\<close> on the \<open>MultiDict\<close> of decoded parameters: the first value of the key.\<close>

definition getitem :: "(string \<times> string) list \<Rightarrow> string \<Rightarrow> error + string" where
  "getitem d k = (case map_of d k of None \<Rightarrow> Inl KeyError | Some v \<Rightarrow> Inr v)"

text \<open>
  \<open>StashTeam.authenticate\<close>; \<open>args\<close> are the query parameters of the callback
  (\<open>req.args\<close>).  The argument \<open>requested_redirect_url\<close> is not used by the source.
\<close>

definition stash_authenticate ::
  "'k lib \<Rightarrow> stash_team \<Rightarrow> pystate \<Rightarrow> string \<Rightarrow> (string \<times> string) list \<Rightarrow> world \<Rightarrow>
   (error + identity) \<times> world" where
  "stash_authenticate lib self state requested_redirect_url args w =
     (case unpack_pair state of
        Inl e \<Rightarrow> (Inl (if e = ValueError then AuthenticationError None else e), w)
      | Inr (oauth_token, oauth_token_secret) \<Rightarrow>
          if map_of args ''oauth_token'' \<noteq> Some oauth_token
          then (Inl (AuthenticationError None), w)
          else
            (case team_request self ''POST''
                    (server_url self @ ''/plugins/servlet/oauth/access-token'') None []
                    (Some oauth_token) (Some oauth_token_secret) w of
               (Inl e, w1) \<Rightarrow> (Inl e, w1)
             | (Inr response, w1) \<Rightarrow>
                 (case read_body response of
                    Inl e \<Rightarrow> (Inl e, w1)
                  | Inr b \<Rightarrow>
                 let access_token = url_decode_stream lib b in
                 (case getitem access_token ''oauth_token'' of
                    Inl e \<Rightarrow> (Inl e, w1)
                  | Inr tok \<Rightarrow>
                      (case getitem access_token ''oauth_token_secret'' of
                         Inl e \<Rightarrow> (Inl e, w1)
                       | Inr sec \<Rightarrow>
                           (case team_request self ''GET''
                                   (server_url self @ ''/plugins/servlet/applinks/whoami'')
                                   None [] (Some tok) (Some sec) w1 of
                              (Inl e, w2) \<Rightarrow> (Inl e, w2)
                            | (Inr response2, w2) \<Rightarrow>
                                (case read_body response2 of
                                   Inl e \<Rightarrow> (Inl e, w2)
                                 | Inr whoami \<Rightarrow>
                                (Inr \<lparr>team_type = team_cls self,
                                      identifier = server_url self @ ''/users/'' @ whoami,
                                      access_token = TokenPair tok sec\<rparr>, w2))))))))"

text \<open>\<open>StashTeam.authorize\<close>: no request is made, the world comes back as it was.\<close>

definition stash_authorize :: "stash_team \<Rightarrow> identity \<Rightarrow> world \<Rightarrow> (error + bool) \<times> world" where
  "stash_authorize self ident w =
     (if \<not> issubclass (team_type ident) (team_cls self) then (Inr False, w)
      else (Inr (prefix (server_url self) (identifier ident)), w))"

section \<open>\<open>geofront.backends.github\<close>: the organization\<close>

text \<open>
  Modelled from the spec: the class \<open>Identity\<close> of \<open>geofront.identity\<close> is not among
  the sources.  The spec's data model gives its identifier as a login name or a profile
  URL, so the constructor accepts a string there and rejects any other decoded value.
\<close>

definition Identity_init :: "cls \<Rightarrow> json \<Rightarrow> access_token \<Rightarrow> error + identity" where
  "Identity_init t i tok =
     (case i of
        JStr s \<Rightarrow> Inr \<lparr>team_type = t, identifier = s, access_token = tok\<rparr>
      | _ \<Rightarrow> Inl TypeError)"

definition ACCESS_TOKEN_URL :: string where
  "ACCESS_TOKEN_URL = ''https://github.com/login/oauth/access_token''"

definition USER_URL :: string where
  "USER_URL = ''https://api.github.com/user''"

definition ORGS_LIST_URL :: string where
  "ORGS_LIST_URL = ''https://api.github.com/user/orgs''"

text \<open>
  The module function \<open>request\<close>.  \<open>'token ' + access_token\<close> needs a string, so a
  pair raises \<open>TypeError\<close> before anything is sent.  After the assertion on the
  content type the body is read on every path; a \<open>DELETE\<close> then returns \<open>None\<close>.
\<close>

definition github_request ::
  "'k lib \<Rightarrow> access_token \<Rightarrow> string \<Rightarrow> string \<Rightarrow> string option \<Rightarrow> world \<Rightarrow>
   (error + json) \<times> world" where
  "github_request lib tok url method dat w =
     (case tok of
        TokenPair a b \<Rightarrow> (Inl TypeError, w)
      | Bearer t \<Rightarrow>
          (case urlopen \<lparr>rq_method = method, rq_url = url, rq_data = dat,
                         rq_headers = [(''Authorization'', ''token '' @ t),
                                       (''Accept'', ''application/json'')],
                         rq_signed_by = None\<rparr> w of
             (Inl e, w1) \<Rightarrow> (Inl e, w1)
           | (Inr response, w1) \<Rightarrow>
               let mimetype = fst (parse_options_header lib (content_type response)) in
               if \<not> (mimetype = ''application/json'' \<or> method = ''DELETE'')
               then (Inl AssertionError, w1)
               else (case read_body response of
                       Inl e \<Rightarrow> (Inl e, w1)
                     | Inr b \<Rightarrow>
                         if method = ''DELETE'' then (Inr JNull, w1)
                         else (case json_loads lib b of
                                 None \<Rightarrow> (Inl ValueError, w1)
                               | Some j \<Rightarrow> (Inr j, w1)))))"

record github_org =
  org_cls :: cls
  client_id :: string
  client_secret :: string
  org_login :: string

text \<open>\<open>any(o['login'] == self.org_login for o in response)\<close>, left to right.\<close>

fun any_login :: "string \<Rightarrow> json list \<Rightarrow> error + bool" where
  "any_login org [] = Inr False"
| "any_login org (x # xs) =
     (case subscript x ''login'' of
        Inl e \<Rightarrow> Inl e
      | Inr l \<Rightarrow> if l = JStr org then Inr True else any_login org xs)"

text \<open>\<open>isinstance(response, collections.Mapping) and 'error' in response\<close>\<close>

fun is_error_mapping :: "json \<Rightarrow> bool" where
  "is_error_mapping (JObj kvs) = (map_of kvs ''error'' \<noteq> None)"
| "is_error_mapping j = False"

text \<open>\<open>GitHubOrganization.authorize\<close>\<close>

definition github_authorize ::
  "'k lib \<Rightarrow> github_org \<Rightarrow> identity \<Rightarrow> world \<Rightarrow> (error + bool) \<times> world" where
  "github_authorize lib self ident w =
     (if \<not> issubclass (team_type ident) (org_cls self) then (Inr False, w)
      else
        (case github_request lib (access_token ident) ORGS_LIST_URL ''GET'' None w of
           (Inl e, w1) \<Rightarrow> if is_IOError e then (Inr False, w1) else (Inl e, w1)
         | (Inr response, w1) \<Rightarrow>
             if is_error_mapping response then (Inr False, w1)
             else (case iterate response of
                     Inl e \<Rightarrow> (Inl e, w1)
                   | Inr os \<Rightarrow> (any_login (org_login self) os, w1))))"

text \<open>
  Lines 126 to 131 of \<open>authenticate\<close>: the callback must carry \<open>code\<close> and a
  \<open>state\<close> equal to the nonce; a missing parameter is the \<open>KeyError\<close> the source
  turns into \<open>AuthenticationError\<close>.
\<close>

definition check_callback :: "string \<Rightarrow> (string \<times> string) list \<Rightarrow> error + string" where
  "check_callback auth_nonce args =
     (case getitem args ''code'' of
        Inl e \<Rightarrow> Inl (AuthenticationError None)
      | Inr c \<Rightarrow>
          (case getitem args ''state'' of
             Inl e \<Rightarrow> Inl (AuthenticationError None)
           | Inr st \<Rightarrow> if st \<noteq> auth_nonce then Inl (AuthenticationError None) else Inr c))"

text \<open>
  Lines 139 to 155: the token endpoint's answer is decoded by its content type, and
  \<open>token_data['access_token']\<close> is read from it.  The token of a JSON answer can be
  any decoded value.
\<close>

definition read_token_data :: "'k lib \<Rightarrow> http_response \<Rightarrow> error + json" where
  "read_token_data lib response =
     (let mimetype = fst (parse_options_header lib (content_type response)) in
      if mimetype = ''application/x-www-form-urlencoded''
      then (case read_body response of
              Inl e \<Rightarrow> Inl e
            | Inr b \<Rightarrow>
                (case getitem (url_decode_stream lib b) ''access_token'' of
                   Inl e \<Rightarrow> Inl e
                 | Inr t \<Rightarrow> Inr (JStr t)))
      else if mimetype = ''application/json''
      then (case read_body response of
              Inl e \<Rightarrow> Inl e
            | Inr b \<Rightarrow>
                (case json_loads lib b of
                   None \<Rightarrow> Inl ValueError
                 | Some token_data \<Rightarrow> subscript token_data ''access_token''))
      else Inl (AuthenticationError
             (Some (ACCESS_TOKEN_URL @ '' sent unsupported content type: '' @
                    (case content_type response of None \<Rightarrow> ''None'' | Some c \<Rightarrow> c)))))"

text \<open>
  Lines 132 to 154: the code is posted to the token endpoint, without credentials; a
  failure of \<open>urlopen\<close> is not caught.
\<close>

definition exchange_code ::
  "'k lib \<Rightarrow> github_org \<Rightarrow> string \<Rightarrow> string \<Rightarrow> world \<Rightarrow> (error + json) \<times> world" where
  "exchange_code lib self c requested_redirect_url w =
     (let dat = url_encode lib
            [(''client_id'', client_id self), (''client_secret'', client_secret self),
             (''code'', c), (''redirect_uri'', requested_redirect_url)] in
      case urlopen \<lparr>rq_method = ''POST'', rq_url = ACCESS_TOKEN_URL, rq_data = Some dat,
                    rq_headers = [], rq_signed_by = None\<rparr> w of
        (Inl e, w1) \<Rightarrow> (Inl e, w1)
      | (Inr response, w1) \<Rightarrow> (read_token_data lib response, w1))"

text \<open>
  Lines 155 to 160: the profile is fetched with the token and the identity is built.
  A token that is not a string makes \<open>request\<close> raise \<open>TypeError\<close> while it builds
  the \<open>Authorization\<close> header.
\<close>

definition fetch_identity ::
  "'k lib \<Rightarrow> github_org \<Rightarrow> json \<Rightarrow> world \<Rightarrow> (error + identity) \<times> world" where
  "fetch_identity lib self token w =
     (case token of
        JStr tok \<Rightarrow>
          (case github_request lib (Bearer tok) USER_URL ''GET'' None w of
             (Inl e, w1) \<Rightarrow> (Inl e, w1)
           | (Inr user_data, w1) \<Rightarrow>
               (case subscript user_data ''login'' of
                  Inl e \<Rightarrow> (Inl e, w1)
                | Inr login \<Rightarrow> (Identity_init (org_cls self) login (Bearer tok), w1)))
      | _ \<Rightarrow> (Inl TypeError, w))"

text \<open>
  \<open>GitHubOrganization.authenticate\<close>; \<open>args\<close> are the query parameters of the
  callback (\<open>req.args\<close>).
\<close>

definition github_authenticate ::
  "'k lib \<Rightarrow> github_org \<Rightarrow> string \<Rightarrow> string \<Rightarrow> (string \<times> string) list \<Rightarrow> world \<Rightarrow>
   (error + identity) \<times> world" where
  "github_authenticate lib self auth_nonce requested_redirect_url args w =
     (case check_callback auth_nonce args of
        Inl e \<Rightarrow> (Inl e, w)
      | Inr c \<Rightarrow>
          (case exchange_code lib self c requested_redirect_url w of
             (Inl e, w1) \<Rightarrow> (Inl e, w1)
           | (Inr token, w1) \<Rightarrow>
               (case fetch_identity lib self token w1 of
                  (Inl e, w2) \<Rightarrow> (Inl e, w2)
                | (Inr ident, w2) \<Rightarrow>
                    (case github_authorize lib self ident w2 of
                       (Inl e, w3) \<Rightarrow> (Inl e, w3)
                     | (Inr ok, w3) \<Rightarrow>
                         if ok then (Inr ident, w3)
                         else (Inl (AuthenticationError
                                 (Some (''@'' @ identifier ident @
                                        '' user is not a member of @'' @
                                        org_login self @ '' organization''))), w3)))))"

text \<open>
  The next call of \<open>urlopen\<close> raises an \<open>IOError\<close>: no connection, or a status
  outside 200..299.
\<close>

fun call_fails :: "net_event list \<Rightarrow> bool" where
  "call_fails [] = True"
| "call_fails (ConnectionFailed # es) = True"
| "call_fails (BadStatus # es) = False"
| "call_fails (Answer r # es) = (\<not> (200 \<le> code r \<and> code r < 300))"

section \<open>\<open>geofront.backends.stash\<close>: the key store\<close>

text \<open>\<open>str(n)\<close> of a non-negative integer.\<close>

fun string_of_nat :: "nat \<Rightarrow> string" where
  "string_of_nat n =
     (if n < 10 then [''0123456789'' ! n]
      else string_of_nat (n div 10) @ [''0123456789'' ! (n mod 10)])"

declare string_of_nat.simps [simp del]

text \<open>
  What \<open>str.format\<close> puts into a URL for a decoded value; the text of a list or a
  dict is left to the library parameter.
\<close>

definition py_str :: "'k lib \<Rightarrow> json \<Rightarrow> string" where
  "py_str lib j =
     (case j of
        JNull \<Rightarrow> ''None''
      | JBool b \<Rightarrow> (if b then ''True'' else ''False'')
      | JNum n \<Rightarrow> (if n < 0 then ''-'' @ string_of_nat (nat (- n)) else string_of_nat (nat n))
      | JStr s \<Rightarrow> s
      | _ \<Rightarrow> py_repr lib j)"

record stash_key_store =
  team :: stash_team

text \<open>
  The objects the URL templates are formatted with.  The templates read
  \<open>{0.server_url}\<close>: a \<open>StashTeam\<close> has that attribute, a \<open>StashKeyStore\<close>
  (whose \<open>__init__\<close> sets \<open>team\<close> only) has not.
\<close>

datatype pyobj = TeamObj stash_team | KeyStoreObj stash_key_store

fun attr_server_url :: "pyobj \<Rightarrow> error + string" where
  "attr_server_url (TeamObj t) = Inr (server_url t)"
| "attr_server_url (KeyStoreObj s) = Inl AttributeError"

text \<open>
  The guard of \<open>request_list\<close> and \<open>register\<close>:
  \<open>isinstance(self.team, identity.team_type) and
  identity.identifier.startswith(self.team.server_url)\<close>.
\<close>

definition compatible :: "stash_key_store \<Rightarrow> identity \<Rightarrow> bool" where
  "compatible self ident =
     (issubclass (team_cls (team self)) (team_type ident)
      \<and> prefix (server_url (team self)) (identifier ident))"

text \<open>
  \<open>token, token_secret = identity.access_token\<close>: a pair unpacks, a string unpacks
  only when it has two characters.
\<close>

fun unpack_token :: "access_token \<Rightarrow> error + (string \<times> string)" where
  "unpack_token (TokenPair a b) = Inr (a, b)"
| "unpack_token (Bearer [a, b]) = Inr ([a], [b])"
| "unpack_token (Bearer s) = Inl ValueError"

text \<open>\<open>StashKeyStore.request\<close>\<close>

definition store_request ::
  "stash_key_store \<Rightarrow> identity \<Rightarrow> string \<Rightarrow> string \<Rightarrow> string option \<Rightarrow>
   (string \<times> string) list \<Rightarrow> world \<Rightarrow> (error + http_response) \<times> world" where
  "store_request self ident method url bdy hdrs w =
     (case unpack_token (access_token ident) of
        Inl e \<Rightarrow> (Inl e, w)
      | Inr (token, token_secret) \<Rightarrow>
          team_request (team self) method url bdy hdrs (Some token) (Some token_secret) w)"

text \<open>
  One turn of the loop of \<open>request_list\<close>, split where the generator hands the
  entries to its consumer.  \<open>read_page\<close> is the part before the \<open>yield from\<close>:
  the status assertion, the decoding, and the entries of \<open>payload['values']\<close>.
  \<open>next_start\<close> is the part after it: \<open>None\<close> when \<open>payload['isLastPage']\<close> is
  true, else the next cursor \<open>payload['nextPageStart']\<close>.
\<close>

definition read_page :: "'k lib \<Rightarrow> http_response \<Rightarrow> error + (json list \<times> json)" where
  "read_page lib response =
     (if code response \<noteq> 200 then Inl AssertionError
      else (case read_body response of
              Inl e \<Rightarrow> Inl e
            | Inr b \<Rightarrow>
                (case json_loads lib b of
                   None \<Rightarrow> Inl ValueError
                 | Some payload \<Rightarrow>
                     (case subscript payload ''values'' of
                        Inl e \<Rightarrow> Inl e
                      | Inr vs \<Rightarrow>
                          (case iterate vs of
                             Inl e \<Rightarrow> Inl e
                           | Inr entries \<Rightarrow> Inr (entries, payload))))))"

definition next_start :: "json \<Rightarrow> error + json option" where
  "next_start payload =
     (case subscript payload ''isLastPage'' of
        Inl e \<Rightarrow> Inl e
      | Inr l \<Rightarrow>
          if truthy l then Inr None
          else (case subscript payload ''nextPageStart'' of
                  Inl e \<Rightarrow> Inl e
                | Inr n \<Rightarrow> Inr (Some n)))"

definition list_url :: "'k lib \<Rightarrow> stash_key_store \<Rightarrow> json \<Rightarrow> string" where
  "list_url lib self start =
     server_url (team self) @ ''/rest/ssh/1.0/keys?start='' @ py_str lib start"

definition request_page ::
  "'k lib \<Rightarrow> stash_key_store \<Rightarrow> identity \<Rightarrow> json \<Rightarrow> world \<Rightarrow>
   (error + (json list \<times> json)) \<times> world" where
  "request_page lib self ident start w =
     (case store_request self ident ''GET'' (list_url lib self start) None [] w of
        (Inl e, w1) \<Rightarrow> (Inl e, w1)
      | (Inr response, w1) \<Rightarrow> (read_page lib response, w1))"

text \<open>
  The generator of \<open>request_list\<close> run to its end, as \<open>list_keys\<close> runs it: all
  entries of all pages, or the first exception.  Every page takes one answer from the
  world, which bounds the loop.
\<close>

function request_pages ::
  "'k lib \<Rightarrow> stash_key_store \<Rightarrow> identity \<Rightarrow> json \<Rightarrow> world \<Rightarrow>
   (error + json list) \<times> world" where
  "request_pages lib self ident start w =
     (case request_page lib self ident start w of
        (Inl e, w1) \<Rightarrow> (Inl e, w1)
      | (Inr (entries, payload), w1) \<Rightarrow>
          (case next_start payload of
             Inl e \<Rightarrow> (Inl e, w1)
           | Inr None \<Rightarrow> (Inr entries, w1)
           | Inr (Some n) \<Rightarrow>
               (case request_pages lib self ident n w1 of
                  (Inl e, w2) \<Rightarrow> (Inl e, w2)
                | (Inr later, w2) \<Rightarrow> (Inr (entries @ later), w2))))"
  by pat_completeness auto
termination
  by (relation "measure (\<lambda>(lib, self, ident, start, w). length (incoming w))")
     (auto simp: request_page_def store_request_def team_request_def
           split: sum.splits prod.splits list.splits net_event.splits if_splits)

declare request_pages.simps [simp del]

definition request_list ::
  "'k lib \<Rightarrow> stash_key_store \<Rightarrow> identity \<Rightarrow> world \<Rightarrow> (error + json list) \<times> world" where
  "request_list lib self ident w =
     (if \<not> compatible self ident then (Inr [], w)
      else request_pages lib self ident (JNum 0) w)"

text \<open>
  \<open>parse_openssh_pubkey(key['text'])\<close>: the subscript can raise, and so can the
  parser, on a text it rejects or on a value that is not a string.
\<close>

definition parse_entry :: "'k lib \<Rightarrow> json \<Rightarrow> error + 'k" where
  "parse_entry lib key =
     (case subscript key ''text'' of
        Inl e \<Rightarrow> Inl e
      | Inr (JStr s) \<Rightarrow>
          (case parse_openssh_pubkey lib s of None \<Rightarrow> Inl ParseError | Some k \<Rightarrow> Inr k)
      | Inr other \<Rightarrow> Inl ParseError)"

text \<open>The loop of \<open>list_keys\<close>: an entry whose parse raises is logged and skipped.\<close>

fun collect_keys :: "'k lib \<Rightarrow> json list \<Rightarrow> 'k set" where
  "collect_keys lib [] = {}"
| "collect_keys lib (key # keys) =
     (case parse_entry lib key of
        Inl e \<Rightarrow> collect_keys lib keys
      | Inr pubkey \<Rightarrow> insert pubkey (collect_keys lib keys))"

text \<open>\<open>StashKeyStore.list_keys\<close>\<close>

definition stash_list_keys ::
  "'k lib \<Rightarrow> stash_key_store \<Rightarrow> identity \<Rightarrow> world \<Rightarrow> (error + 'k set) \<times> world" where
  "stash_list_keys lib self ident w =
     (case request_list lib self ident w of
        (Inl e, w1) \<Rightarrow> (Inl e, w1)
      | (Inr keys, w1) \<Rightarrow> (Inr (collect_keys lib keys), w1))"

text \<open>
  \<open>StashKeyStore.register\<close>.  The URL is \<open>self.REGISTER_URL.format(self)\<close>, with
  the key store itself as the object the template reads \<open>server_url\<close> from; the
  arguments are evaluated before the request is made.
\<close>

definition stash_register ::
  "'k lib \<Rightarrow> stash_key_store \<Rightarrow> identity \<Rightarrow> 'k \<Rightarrow> world \<Rightarrow> (error + unit) \<times> world" where
  "stash_register lib self ident public_key w =
     (if \<not> compatible self ident then (Inr (), w)
      else
        let dat = json_dumps lib (JObj [(''text'', JStr (format_openssh_pubkey lib public_key))])
        in
        (case attr_server_url (KeyStoreObj self) of
           Inl e \<Rightarrow> (Inl e, w)
         | Inr base \<Rightarrow>
             (case store_request self ident ''POST'' (base @ ''/rest/ssh/1.0/keys'') (Some dat)
                     [(''Content-Type'', ''application/json'')] w of
                (Inr response, w1) \<Rightarrow> (Inr (), w1)
              | (Inl (HTTPError r), w1) \<Rightarrow>
                  if code r = 409
                  then (case read_body r of
                          Inl e \<Rightarrow> (Inl e, w1)
                        | Inr b \<Rightarrow>
                  (case json_loads lib b of
                          None \<Rightarrow> (Inl ValueError, w1)
                        | Some j \<Rightarrow>
                            (case subscript j ''errors'' of
                               Inl e \<Rightarrow> (Inl e, w1)
                             | Inr errors \<Rightarrow>
                                 (case first_item errors of
                                    Inl e \<Rightarrow> (Inl e, w1)
                                  | Inr err \<Rightarrow>
                                      (case subscript err ''message'' of
                                         Inl e \<Rightarrow> (Inl e, w1)
                                       | Inr m \<Rightarrow> (Inl (DuplicatePublicKeyError m), w1))))))
                  else (Inl (HTTPError r), w1)
              | (Inl e, w1) \<Rightarrow> (Inl e, w1))))"

text \<open>
  The loop of \<open>deregister\<close> over the entries of one page: the first entry whose
  parsed key equals \<open>public_key\<close>, if any; a parse that raises is not caught here.
\<close>

fun find_key :: "'k lib \<Rightarrow> 'k \<Rightarrow> json list \<Rightarrow> error + json option" where
  "find_key lib public_key [] = Inr None"
| "find_key lib public_key (key # keys) =
     (case parse_entry lib key of
        Inl e \<Rightarrow> Inl e
      | Inr k \<Rightarrow> if k = public_key then Inr (Some key) else find_key lib public_key keys)"

text \<open>
  The body of the \<open>if\<close> in \<open>deregister\<close>: the URL argument is
  \<open>self.DEREGISTER_URL(self, key['id'])\<close>, a call of the template string itself.
  \<open>key['id']\<close> is evaluated first; then calling a \<open>str\<close> raises \<open>TypeError\<close>, so
  the \<open>DELETE\<close> request, the assertion on its status and the \<open>break\<close> are never
  reached.
\<close>

definition delete_entry ::
  "stash_key_store \<Rightarrow> identity \<Rightarrow> json \<Rightarrow> world \<Rightarrow> (error + unit) \<times> world" where
  "delete_entry self ident key w =
     (case subscript key ''id'' of
        Inl e \<Rightarrow> (Inl e, w)
      | Inr i \<Rightarrow> (Inl TypeError, w))"

text \<open>
  \<open>deregister\<close> draws from the generator page by page: a later page is requested only
  when no entry of the pages before it matched.
\<close>

function deregister_from ::
  "'k lib \<Rightarrow> stash_key_store \<Rightarrow> identity \<Rightarrow> 'k \<Rightarrow> json \<Rightarrow> world \<Rightarrow>
   (error + unit) \<times> world" where
  "deregister_from lib self ident public_key start w =
     (case request_page lib self ident start w of
        (Inl e, w1) \<Rightarrow> (Inl e, w1)
      | (Inr (entries, payload), w1) \<Rightarrow>
          (case find_key lib public_key entries of
             Inl e \<Rightarrow> (Inl e, w1)
           | Inr (Some key) \<Rightarrow> delete_entry self ident key w1
           | Inr None \<Rightarrow>
               (case next_start payload of
                  Inl e \<Rightarrow> (Inl e, w1)
                | Inr None \<Rightarrow> (Inr (), w1)
                | Inr (Some n) \<Rightarrow> deregister_from lib self ident public_key n w1)))"
  by pat_completeness auto
termination
  by (relation "measure (\<lambda>(lib, self, ident, public_key, start, w). length (incoming w))")
     (auto simp: request_page_def store_request_def team_request_def
           split: sum.splits prod.splits list.splits net_event.splits if_splits)

declare deregister_from.simps [simp del]

text \<open>
  \<open>StashKeyStore.deregister\<close>; the guard is the one at the head of
  \<open>request_list\<close>, whose generator then yields nothing.
\<close>

definition stash_deregister ::
  "'k lib \<Rightarrow> stash_key_store \<Rightarrow> identity \<Rightarrow> 'k \<Rightarrow> world \<Rightarrow> (error + unit) \<times> world" where
  "stash_deregister lib self ident public_key w =
     (if \<not> compatible self ident then (Inr (), w)
      else deregister_from lib self ident public_key (JNum 0) w)"

section \<open>\<open>geofront.backends.github\<close>: the key store\<close>

definition LIST_URL :: string where
  "LIST_URL = ''https://api.github.com/user/keys''"

text \<open>\<open>self.DEREGISTER_URL.format(**key)\<close>: the template reads \<open>{id}\<close>.\<close>

definition deregister_url :: "'k lib \<Rightarrow> json \<Rightarrow> error + string" where
  "deregister_url lib key =
     (case subscript key ''id'' of
        Inl e \<Rightarrow> Inl e
      | Inr i \<Rightarrow> Inr (''https://api.github.com/user/keys/'' @ py_str lib i))"

text \<open>\<open>GitHubKeyStore.register\<close>\<close>

definition github_register ::
  "'k lib \<Rightarrow> identity \<Rightarrow> public_key \<Rightarrow> world \<Rightarrow> (error + unit) \<times> world" where
  "github_register lib ident public_key w =
     (let dat = json_dumps lib
            (JObj [(''title'', case comment public_key of None \<Rightarrow> JNull | Some c \<Rightarrow> JStr c),
                   (''key'', JStr (str_of_key lib public_key))])
      in case github_request lib (access_token ident) LIST_URL ''POST'' (Some dat) w of
           (Inl e, w1) \<Rightarrow> (Inl e, w1)
         | (Inr response, w1) \<Rightarrow> (Inr (), w1))"

text \<open>\<open>PublicKey.parse_line(key['key'])\<close>\<close>

definition parse_key_line :: "'k lib \<Rightarrow> json \<Rightarrow> error + public_key" where
  "parse_key_line lib key =
     (case subscript key ''key'' of
        Inl e \<Rightarrow> Inl e
      | Inr (JStr s) \<Rightarrow> (case parse_line lib s of None \<Rightarrow> Inl ParseError | Some k \<Rightarrow> Inr k)
      | Inr other \<Rightarrow> Inl ParseError)"

text \<open>
  The set comprehension of \<open>list_keys\<close>: every entry is parsed, in order, and the
  first parse that raises ends the comprehension.  The set is kept as the list of its
  elements in the order they were added; a key equal to one already there is not added.
\<close>

definition add_key :: "public_key list \<Rightarrow> public_key \<Rightarrow> public_key list" where
  "add_key ks k = (if list_ex (\<lambda>k'. pk_eq k' k) ks then ks else ks @ [k])"

fun parse_all :: "'k lib \<Rightarrow> public_key list \<Rightarrow> json list \<Rightarrow> error + public_key list" where
  "parse_all lib acc [] = Inr acc"
| "parse_all lib acc (key # keys) =
     (case parse_key_line lib key of
        Inl e \<Rightarrow> Inl e
      | Inr k \<Rightarrow> parse_all lib (add_key acc k) keys)"

text \<open>\<open>GitHubKeyStore.list_keys\<close>\<close>

definition github_list_keys ::
  "'k lib \<Rightarrow> identity \<Rightarrow> world \<Rightarrow> (error + public_key list) \<times> world" where
  "github_list_keys lib ident w =
     (case github_request lib (access_token ident) LIST_URL ''GET'' None w of
        (Inl e, w1) \<Rightarrow> (Inl e, w1)
      | (Inr keys, w1) \<Rightarrow>
          (case iterate keys of
             Inl e \<Rightarrow> (Inl e, w1)
           | Inr ks \<Rightarrow> (parse_all lib [] ks, w1)))"

text \<open>The loop of \<open>GitHubKeyStore.deregister\<close>.\<close>

fun deregister_loop ::
  "'k lib \<Rightarrow> identity \<Rightarrow> public_key \<Rightarrow> json list \<Rightarrow> world \<Rightarrow> (error + unit) \<times> world" where
  "deregister_loop lib ident public_key [] w = (Inr (), w)"
| "deregister_loop lib ident public_key (key # keys) w =
     (case parse_key_line lib key of
        Inl e \<Rightarrow> (Inl e, w)
      | Inr k \<Rightarrow>
          if pk_eq k public_key
          then (case deregister_url lib key of
                  Inl e \<Rightarrow> (Inl e, w)
                | Inr url \<Rightarrow>
                    (case github_request lib (access_token ident) url ''DELETE'' None w of
                       (Inl e, w1) \<Rightarrow> (Inl e, w1)
                     | (Inr r, w1) \<Rightarrow> (Inr (), w1)))
          else deregister_loop lib ident public_key keys w)"

text \<open>\<open>GitHubKeyStore.deregister\<close>\<close>

definition github_deregister ::
  "'k lib \<Rightarrow> identity \<Rightarrow> public_key \<Rightarrow> world \<Rightarrow> (error + unit) \<times> world" where
  "github_deregister lib ident public_key w =
     (case github_request lib (access_token ident) LIST_URL ''GET'' None w of
        (Inl e, w1) \<Rightarrow> (Inl e, w1)
      | (Inr keys, w1) \<Rightarrow>
          (case iterate keys of
             Inl e \<Rightarrow> (Inl e, w1)
           | Inr ks \<Rightarrow> deregister_loop lib ident public_key ks w1))"

section \<open>Describing a paginated listing\<close>

text \<open>
  What a provider's answers are, seen from \<open>request_list\<close>: the entries of a page,
  its continuation value (\<open>None\<close> on the last page), and whether an answer is a
  page at all.
\<close>

definition page_entries :: "'k lib \<Rightarrow> http_response \<Rightarrow> json list" where
  "page_entries lib r = (case read_page lib r of Inl e \<Rightarrow> [] | Inr (entries, payload) \<Rightarrow> entries)"

definition page_next :: "'k lib \<Rightarrow> http_response \<Rightarrow> json option" where
  "page_next lib r =
     (case read_page lib r of
        Inl e \<Rightarrow> None
      | Inr (entries, payload) \<Rightarrow> (case next_start payload of Inl e \<Rightarrow> None | Inr n \<Rightarrow> n))"

definition is_page :: "'k lib \<Rightarrow> http_response \<Rightarrow> bool" where
  "is_page lib r =
     (case read_page lib r of
        Inl e \<Rightarrow> False
      | Inr (entries, payload) \<Rightarrow> (case next_start payload of Inl e \<Rightarrow> False | Inr n \<Rightarrow> True))"

text \<open>
  A complete listing: one or more pages, of which exactly the last says
  \<open>isLastPage\<close>.
\<close>

fun complete_listing :: "'k lib \<Rightarrow> http_response list \<Rightarrow> bool" where
  "complete_listing lib [] = False"
| "complete_listing lib [r] = (is_page lib r \<and> page_next lib r = None)"
| "complete_listing lib (r # r' # rs) =
     (is_page lib r \<and> page_next lib r \<noteq> None \<and> complete_listing lib (r' # rs))"

text \<open>
  The cursors a faithful client uses on a listing: the first one, then the
  continuation value of each page but the last.
\<close>

fun cursors :: "'k lib \<Rightarrow> json \<Rightarrow> http_response list \<Rightarrow> json list" where
  "cursors lib start [] = []"
| "cursors lib start [r] = [start]"
| "cursors lib start (r # r' # rs) =
     (case page_next lib r of
        None \<Rightarrow> [start]
      | Some n \<Rightarrow> start # cursors lib n (r' # rs))"

text \<open>The request for the page at a cursor, signed with the identity's token pair.\<close>

definition list_request ::
  "'k lib \<Rightarrow> stash_key_store \<Rightarrow> string \<Rightarrow> string \<Rightarrow> json \<Rightarrow> http_request" where
  "list_request lib self tok sec start =
     \<lparr>rq_method = ''GET'', rq_url = list_url lib self start, rq_data = None,
      rq_headers = [],
      rq_signed_by = Some (create_client (team self) (Some tok) (Some sec))\<rparr>"

section \<open>Concrete providers for running the model\<close>

text \<open>
  A small instance of the library functions: it decodes and parses the handful of
  texts the example providers below send, and rejects everything else.
\<close>

definition key_entry :: "int \<Rightarrow> string \<Rightarrow> json" where
  "key_entry i text = JObj [(''id'', JNum i), (''text'', JStr text)]"

definition github_key :: "int \<Rightarrow> string \<Rightarrow> json" where
  "github_key i line = JObj [(''id'', JNum i), (''key'', JStr line)]"

definition example_lib :: "string lib" where
  "example_lib =
     \<lparr>json_loads =
        (\<lambda>s. if s = ''{login: alice}'' then Some (JObj [(''login'', JStr ''alice'')])
             else if s = ''[{login: spoqa}]''
             then Some (JArr [JObj [(''login'', JStr ''spoqa'')]])
             else if s = ''[{login: other}]''
             then Some (JArr [JObj [(''login'', JStr ''other'')]])
             else if s = ''page0''
             then Some (JObj [(''values'', JArr [key_entry 1 ''key1'', key_entry 2 ''key2'']),
                              (''isLastPage'', JBool False), (''nextPageStart'', JNum 2)])
             else if s = ''page2''
             then Some (JObj [(''values'', JArr [key_entry 3 ''key3'', key_entry 4 ''key4'']),
                              (''isLastPage'', JBool False), (''nextPageStart'', JNum 4)])
             else if s = ''page4''
             then Some (JObj [(''values'', JArr [key_entry 5 ''key5'']),
                              (''isLastPage'', JBool True)])
             else if s = ''mixed page''
             then Some (JObj [(''values'', JArr [key_entry 6 ''garbage'', key_entry 7 ''key7'']),
                              (''isLastPage'', JBool True)])
             else if s = ''mixed keys''
             then Some (JArr [github_key 6 ''garbage'', github_key 7 ''key7''])
             else if s = ''one key'' then Some (JArr [github_key 7 ''key7''])
             else if s = ''conflict''
             then Some (JObj [(''errors'',
                               JArr [JObj [(''message'', JStr ''already in use'')]])])
             else None),
      json_dumps = (\<lambda>j. ''{}''),
      url_decode_stream =
        (\<lambda>s. if s = ''oauth_token=at&oauth_token_secret=as''
             then [(''oauth_token'', ''at''), (''oauth_token_secret'', ''as'')]
             else if s = ''access_token=t0'' then [(''access_token'', ''t0'')]
             else []),
      url_encode = (\<lambda>kvs. concat (map (\<lambda>kv. fst kv @ ''='' @ snd kv @ ''&'') kvs)),
      parse_options_header = (\<lambda>h. case h of None \<Rightarrow> ([], []) | Some m \<Rightarrow> (m, [])),
      py_repr = (\<lambda>j. ''?''),
      parse_openssh_pubkey = (\<lambda>s. if s = ''garbage'' then None else Some s),
      format_openssh_pubkey = (\<lambda>k. k),
      parse_line =
        (\<lambda>s. if s = ''garbage'' then None
             else Some \<lparr>algorithm = ''ssh-rsa'', material = s, comment = None\<rparr>),
      str_of_key = (\<lambda>k. algorithm k @ '' '' @ material k)\<rparr>"

definition example_team :: stash_team where
  "example_team = StashTeam_init StashTeamC ''https://stash.example.com/'' ''geofront'' ''RSA''"

text \<open>A provider that answers the access-token request and the whoami request.\<close>

definition stash_login_world :: world where
  "stash_login_world =
     \<lparr>incoming =
        [Answer \<lparr>code = 200, content_type = Some ''text/plain'',
                 body = ''oauth_token=at&oauth_token_secret=as'', truncated = False\<rparr>,
         Answer \<lparr>code = 200, content_type = Some ''text/plain'', body = ''alice'', truncated = False\<rparr>],
      sent = []\<rparr>"

definition example_org :: github_org where
  "example_org = \<lparr>org_cls = GitHubOrganizationC, client_id = ''id'',
                  client_secret = ''secret'', org_login = ''spoqa''\<rparr>"

definition example_member :: identity where
  "example_member =
     \<lparr>team_type = GitHubOrganizationC, identifier = ''alice'', access_token = Bearer ''t0''\<rparr>"

definition offline :: world where
  "offline = \<lparr>incoming = [ConnectionFailed], sent = []\<rparr>"

text \<open>
  A GitHub that answers the token request (form-encoded), the profile request and the
  organizations request of a member of \<open>spoqa\<close>.
\<close>

definition github_login_world :: world where
  "github_login_world =
     \<lparr>incoming =
        [Answer \<lparr>code = 200, content_type = Some ''application/x-www-form-urlencoded'',
                 body = ''access_token=t0'', truncated = False\<rparr>,
         Answer \<lparr>code = 200, content_type = Some ''application/json'',
                 body = ''{login: alice}'', truncated = False\<rparr>,
         Answer \<lparr>code = 200, content_type = Some ''application/json'',
                 body = ''[{login: spoqa}]'', truncated = False\<rparr>],
      sent = []\<rparr>"

definition github_callback :: "(string \<times> string) list" where
  "github_callback = [(''code'', ''c0''), (''state'', ''nonce0'')]"

text \<open>A token endpoint that answers with an HTML page.\<close>

definition html_world :: world where
  "html_world =
     \<lparr>incoming = [Answer \<lparr>code = 200, content_type = Some ''text/html'',
                           body = ''<html></html>'', truncated = False\<rparr>],
      sent = []\<rparr>"

definition example_store :: stash_key_store where
  "example_store = \<lparr>team = example_team\<rparr>"

definition stash_user :: identity where
  "stash_user =
     \<lparr>team_type = StashTeamC, identifier = ''https://stash.example.com/users/alice'',
      access_token = TokenPair ''at'' ''as''\<rparr>"

definition json_answer :: "nat \<Rightarrow> string \<Rightarrow> http_response" where
  "json_answer c b = \<lparr>code = c, content_type = Some ''application/json'', body = b, truncated = False\<rparr>"

text \<open>
  A Bitbucket Server that lists five keys on pages of two, two and one, and would
  answer one more request.
\<close>

definition paged_world :: world where
  "paged_world =
     \<lparr>incoming =
        [Answer (json_answer 200 ''page0''), Answer (json_answer 200 ''page2''),
         Answer (json_answer 200 ''page4''), Answer (json_answer 200 ''unread'')],
      sent = []\<rparr>"

text \<open>An identity made by another team: its team type is not GitHub's.\<close>

definition outsider :: identity where
  "outsider =
     \<lparr>team_type = StashTeamC, identifier = ''https://stash.example.com/users/alice'',
      access_token = Bearer ''t0''\<rparr>"

definition one_answer :: "nat \<Rightarrow> string \<Rightarrow> world" where
  "one_answer c b = \<lparr>incoming = [Answer (json_answer c b)], sent = []\<rparr>"

definition key7 :: public_key where
  "key7 = \<lparr>algorithm = ''ssh-rsa'', material = ''key7'', comment = Some ''laptop''\<rparr>"

text \<open>
  A Bitbucket Server that lists the key \<open>key5\<close> on its only page and would answer a
  \<open>DELETE\<close> with status 204.
\<close>

definition deregister_world :: world where
  "deregister_world =
     \<lparr>incoming = [Answer (json_answer 200 ''page4''),
                  Answer \<lparr>code = 204, content_type = None, body = [], truncated = False\<rparr>],
      sent = []\<rparr>"

text \<open>A GitHub that lists one key and answers its deletion with status 204.\<close>

definition github_delete_world :: world where
  "github_delete_world =
     \<lparr>incoming = [Answer (json_answer 200 ''one key''),
                  Answer \<lparr>code = 204, content_type = None, body = [], truncated = False\<rparr>],
      sent = []\<rparr>"

text \<open>
  A GitHub whose answer to the organizations request is cut off in the middle of the
  body, and one that sends something that is no HTTP status line.
\<close>

definition cut_orgs_world :: world where
  "cut_orgs_world =
     \<lparr>incoming = [Answer \<lparr>code = 200, content_type = Some ''application/json'',
                           body = ''[{login: sp'', truncated = True\<rparr>],
      sent = []\<rparr>"

definition garbled_world :: world where
  "garbled_world = \<lparr>incoming = [BadStatus], sent = []\<rparr>"

section \<open>Properties\<close>

lemma read_body_simps [simp]:
  "truncated r \<Longrightarrow> read_body r = Inl IncompleteRead"
  "\<not> truncated r \<Longrightarrow> read_body r = Inr (body r)"
  by (simp_all add: read_body_def)

lemma issubclass_refl: "issubclass c c"
  by (induction c) simp_all

text \<open>
  C8.  \<open>StashTeam.authorize\<close> makes no network call (the list of requests sent and the
  answers still to come are unchanged), never raises, and answers true exactly when the
  identity's team type is a subclass of this team's class and the identifier starts
  with the team's server URL.
\<close>

theorem stash_authorize_structural:
  "stash_authorize self ident w =
     (Inr (issubclass (team_type ident) (team_cls self)
           \<and> prefix (server_url self) (identifier ident)), w)"
  by (simp add: stash_authorize_def)

theorem stash_authorize_structural_witness:
  "stash_authorize example_team stash_user paged_world = (Inr True, paged_world)
   \<and> stash_authorize example_team example_member paged_world = (Inr False, paged_world)"
  using stash_authorize_structural [of example_team stash_user paged_world]
        stash_authorize_structural [of example_team example_member paged_world]
  by (simp add: example_team_def StashTeam_init_def rstrip_slash_def stash_user_def
        example_member_def)

text \<open>
  C10.  An identity that \<open>StashTeam.authenticate\<close> returns carries the class of the
  team that made it and an identifier that is the team's server URL followed by
  \<open>/users/\<close> and the provider's whoami answer; \<open>authorize\<close> of the same team accepts it.
\<close>

theorem stash_authenticate_then_authorize:
  assumes "stash_authenticate lib self state url args w = (Inr ident, w')"
  shows "team_type ident = team_cls self
         \<and> prefix (server_url self @ ''/users/'') (identifier ident)
         \<and> stash_authorize self ident w' = (Inr True, w')"
  using assms unfolding stash_authenticate_def
  by (auto simp: Let_def stash_authorize_def issubclass_refl
           split: sum.splits prod.splits if_splits)

lemma stash_login_run:
  "stash_authenticate example_lib example_team (PySeq [''rt'', ''rs'']) ''https://geofront/cb''
     [(''oauth_token'', ''rt'')] stash_login_world
   = (Inr \<lparr>team_type = StashTeamC,
           identifier = ''https://stash.example.com/users/alice'',
           access_token = TokenPair ''at'' ''as''\<rparr>,
      \<lparr>incoming = [],
       sent = [\<lparr>rq_method = ''POST'',
                rq_url = ''https://stash.example.com/plugins/servlet/oauth/access-token'',
                rq_data = None, rq_headers = [],
                rq_signed_by = Some \<lparr>client_key = ''geofront'', client_rsa_key = ''RSA'',
                   resource_owner_key = Some ''rt'', resource_owner_secret = Some ''rs''\<rparr>\<rparr>,
               \<lparr>rq_method = ''GET'',
                rq_url = ''https://stash.example.com/plugins/servlet/applinks/whoami'',
                rq_data = None, rq_headers = [],
                rq_signed_by = Some \<lparr>client_key = ''geofront'', client_rsa_key = ''RSA'',
                   resource_owner_key = Some ''at'', resource_owner_secret = Some ''as''\<rparr>\<rparr>]\<rparr>)"
  by (simp add: stash_authenticate_def example_lib_def example_team_def StashTeam_init_def
        rstrip_slash_def stash_login_world_def team_request_def create_client_def getitem_def)

theorem stash_authenticate_then_authorize_witness:
  "team_type \<lparr>team_type = StashTeamC,
           identifier = ''https://stash.example.com/users/alice'',
           access_token = TokenPair ''at'' ''as''\<rparr> = team_cls example_team
   \<and> prefix (server_url example_team @ ''/users/'') ''https://stash.example.com/users/alice''
   \<and> fst (stash_authorize example_team
        \<lparr>team_type = StashTeamC,
           identifier = ''https://stash.example.com/users/alice'',
           access_token = TokenPair ''at'' ''as''\<rparr> stash_login_world) = Inr True"
  using stash_authenticate_then_authorize [OF stash_login_run]
  by (simp add: stash_authorize_def example_team_def StashTeam_init_def rstrip_slash_def)

lemma urlopen_fails:
  "call_fails (incoming w) \<Longrightarrow> \<exists>e w'. urlopen rq w = (Inl e, w') \<and> is_IOError e"
  by (cases "incoming w" rule: call_fails.cases) auto

text \<open>
  What the handler of \<open>GitHubOrganization.authorize\<close> does catch: whenever the
  organizations-list request is sent and that call fails with an \<open>IOError\<close> (no
  connection, or an HTTP error status), the result is \<open>False\<close>.
\<close>

lemma github_authorize_ioerror_false:
  assumes "call_fails (incoming w)"
      and "sent (snd (github_authorize lib self ident w)) \<noteq> sent w"
  shows "fst (github_authorize lib self ident w) = Inr False"
proof (cases "access_token ident")
  case (Bearer t)
  obtain e w' where
    "urlopen \<lparr>rq_method = ''GET'', rq_url = ORGS_LIST_URL, rq_data = None,
              rq_headers = [(''Authorization'', ''token '' @ t),
                            (''Accept'', ''application/json'')],
              rq_signed_by = None\<rparr> w = (Inl e, w')" and "is_IOError e"
    using urlopen_fails [OF assms(1)] by blast
  then show ?thesis
    using Bearer by (simp add: github_authorize_def github_request_def)
next
  case (TokenPair a b)
  then show ?thesis
    using assms(2) by (auto simp: github_authorize_def github_request_def split: if_splits)
qed

lemma github_authorize_offline:
  "github_authorize example_lib example_org example_member offline
   = (Inr False,
      \<lparr>incoming = [],
       sent = [\<lparr>rq_method = ''GET'', rq_url = ''https://api.github.com/user/orgs'',
                rq_data = None,
                rq_headers = [(''Authorization'', ''token t0''),
                              (''Accept'', ''application/json'')],
                rq_signed_by = None\<rparr>]\<rparr>)"
  by (simp add: github_authorize_def github_request_def example_org_def
        example_member_def offline_def ORGS_LIST_URL_def)

text \<open>
  C7 fails for the network failures that are not an \<open>IOError\<close>.  When the answer to
  the organizations-list request arrives with its status and headers but the
  connection is cut before the body is complete, reading the body inside \<open>request\<close>
  raises \<open>http.client.IncompleteRead\<close>; when the status line is garbled,
  \<open>urlopen\<close> raises \<open>http.client.BadStatusLine\<close>.  The handler
  \<open>except IOError\<close> catches neither, and \<open>authorize\<close> raises instead of returning
  \<open>False\<close>.
\<close>

theorem github_authorize_raises_on_cut_answer:
  "github_authorize example_lib example_org example_member cut_orgs_world
   = (Inl IncompleteRead,
      \<lparr>incoming = [],
       sent = [\<lparr>rq_method = ''GET'', rq_url = ''https://api.github.com/user/orgs'',
                rq_data = None,
                rq_headers = [(''Authorization'', ''token t0''),
                              (''Accept'', ''application/json'')],
                rq_signed_by = None\<rparr>]\<rparr>)
   \<and> github_authorize example_lib example_org example_member garbled_world
     = (Inl BadStatusLine,
        \<lparr>incoming = [],
         sent = [\<lparr>rq_method = ''GET'', rq_url = ''https://api.github.com/user/orgs'',
                  rq_data = None,
                  rq_headers = [(''Authorization'', ''token t0''),
                                (''Accept'', ''application/json'')],
                  rq_signed_by = None\<rparr>]\<rparr>)
   \<and> \<not> is_IOError IncompleteRead \<and> \<not> is_IOError BadStatusLine"
  by (simp add: github_authorize_def github_request_def example_org_def example_member_def
        example_lib_def cut_orgs_world_def garbled_world_def ORGS_LIST_URL_def)

subsection \<open>The GitHub handshake\<close>

lemma check_callback_Inr:
  "check_callback nonce args = Inr c
   \<longleftrightarrow> map_of args ''code'' = Some c \<and> map_of args ''state'' = Some nonce"
  by (auto simp: check_callback_def getitem_def split: option.splits)

lemma check_callback_Inl:
  "check_callback nonce args = Inl e \<Longrightarrow> e = AuthenticationError None"
  by (auto simp: check_callback_def getitem_def split: option.splits if_splits)

lemma github_bad_callback:
  assumes "map_of args ''code'' = None \<or> map_of args ''state'' \<noteq> Some nonce"
  shows "github_authenticate lib self nonce url args w = (Inl (AuthenticationError None), w)"
proof (cases "check_callback nonce args")
  case (Inl e)
  then show ?thesis
    using check_callback_Inl [OF Inl] by (simp add: github_authenticate_def)
next
  case (Inr c)
  then show ?thesis
    using assms by (simp add: check_callback_Inr)
qed

lemma github_exchange_fails:
  assumes "check_callback nonce args = Inr c" and "call_fails (incoming w)"
  shows "\<exists>e w'. github_authenticate lib self nonce url args w = (Inl e, w') \<and> is_IOError e"
proof -
  obtain e w' where
    "urlopen \<lparr>rq_method = ''POST'', rq_url = ACCESS_TOKEN_URL,
              rq_data = Some (url_encode lib
                [(''client_id'', client_id self), (''client_secret'', client_secret self),
                 (''code'', c), (''redirect_uri'', url)]),
              rq_headers = [], rq_signed_by = None\<rparr> w = (Inl e, w')" and "is_IOError e"
    using urlopen_fails [OF assms(2)] by blast
  then show ?thesis
    using assms(1) by (simp add: github_authenticate_def exchange_code_def)
qed

lemma read_token_data_unsupported:
  assumes "fst (parse_options_header lib (content_type r)) \<noteq> ''application/x-www-form-urlencoded''"
      and "fst (parse_options_header lib (content_type r)) \<noteq> ''application/json''"
  shows "\<exists>m. read_token_data lib r = Inl (AuthenticationError m)"
  using assms by (simp add: read_token_data_def)

lemma github_unsupported_content_type:
  assumes "check_callback nonce args = Inr c"
      and "incoming w = Answer r # es" and "200 \<le> code r" and "code r < 300"
      and "fst (parse_options_header lib (content_type r)) \<noteq> ''application/x-www-form-urlencoded''"
      and "fst (parse_options_header lib (content_type r)) \<noteq> ''application/json''"
  shows "\<exists>m w'. github_authenticate lib self nonce url args w = (Inl (AuthenticationError m), w')"
proof -
  obtain m where "read_token_data lib r = Inl (AuthenticationError m)"
    using read_token_data_unsupported [OF assms(5,6)] by blast
  then show ?thesis
    using assms(1-4) by (simp add: github_authenticate_def exchange_code_def)
qed

lemma github_not_member:
  assumes "check_callback nonce args = Inr c"
      and "exchange_code lib self c url w = (Inr token, w1)"
      and "fetch_identity lib self token w1 = (Inr ident, w2)"
      and "github_authorize lib self ident w2 = (Inr False, w3)"
  shows "\<exists>m. github_authenticate lib self nonce url args w = (Inl (AuthenticationError m), w3)"
  using assms by (simp add: github_authenticate_def)

lemma github_success_iff:
  "github_authenticate lib self nonce url args w = (Inr ident, w3)
   \<longleftrightarrow> (\<exists>c token w1 w2.
          check_callback nonce args = Inr c
        \<and> exchange_code lib self c url w = (Inr token, w1)
        \<and> fetch_identity lib self token w1 = (Inr ident, w2)
        \<and> github_authorize lib self ident w2 = (Inr True, w3))"
  by (auto simp: github_authenticate_def split: sum.splits prod.splits if_splits)

text \<open>
  C1, as the code has it.  \<open>GitHubOrganization.authenticate\<close> returns an identity
  exactly when the callback carries a code and a state equal to the nonce, the token
  exchange yields a token, the profile request yields the identity, and \<open>authorize\<close>
  answers true for it.  A missing or different state, a token answer of an unsupported
  content type, and \<open>authorize\<close> answering false raise \<open>AuthenticationError\<close>; a
  token request that fails on the network raises that failure (\<open>URLError\<close> or
  \<open>HTTPError\<close>), which \<open>authenticate\<close> does not catch.
\<close>

theorem github_authenticate_outcomes:
  "(github_authenticate lib self nonce url args w = (Inr ident, w3)
    \<longleftrightarrow> (\<exists>c token w1 w2.
           map_of args ''code'' = Some c \<and> map_of args ''state'' = Some nonce
         \<and> exchange_code lib self c url w = (Inr token, w1)
         \<and> fetch_identity lib self token w1 = (Inr ident, w2)
         \<and> github_authorize lib self ident w2 = (Inr True, w3)))
   \<and> (map_of args ''code'' = None \<or> map_of args ''state'' \<noteq> Some nonce
        \<longrightarrow> github_authenticate lib self nonce url args w
            = (Inl (AuthenticationError None), w))
   \<and> (map_of args ''code'' = Some c \<and> map_of args ''state'' = Some nonce
        \<and> incoming w = Answer r # es \<and> 200 \<le> code r \<and> code r < 300
        \<and> fst (parse_options_header lib (content_type r))
            \<noteq> ''application/x-www-form-urlencoded''
        \<and> fst (parse_options_header lib (content_type r)) \<noteq> ''application/json''
        \<longrightarrow> (\<exists>m w'. github_authenticate lib self nonce url args w
                     = (Inl (AuthenticationError m), w')))
   \<and> (map_of args ''code'' = Some c \<and> map_of args ''state'' = Some nonce
        \<and> exchange_code lib self c url w = (Inr token, w1)
        \<and> fetch_identity lib self token w1 = (Inr ident, w2)
        \<and> github_authorize lib self ident w2 = (Inr False, w3)
        \<longrightarrow> (\<exists>m. github_authenticate lib self nonce url args w
                  = (Inl (AuthenticationError m), w3)))
   \<and> (map_of args ''code'' = Some c \<and> map_of args ''state'' = Some nonce
        \<and> call_fails (incoming w)
        \<longrightarrow> (\<exists>e w'. github_authenticate lib self nonce url args w = (Inl e, w')
                    \<and> is_IOError e))"
proof (intro conjI impI)
  show "github_authenticate lib self nonce url args w = (Inr ident, w3)
    \<longleftrightarrow> (\<exists>c token w1 w2.
           map_of args ''code'' = Some c \<and> map_of args ''state'' = Some nonce
         \<and> exchange_code lib self c url w = (Inr token, w1)
         \<and> fetch_identity lib self token w1 = (Inr ident, w2)
         \<and> github_authorize lib self ident w2 = (Inr True, w3))"
    unfolding github_success_iff check_callback_Inr by blast
next
  assume "map_of args ''code'' = None \<or> map_of args ''state'' \<noteq> Some nonce"
  then show "github_authenticate lib self nonce url args w
             = (Inl (AuthenticationError None), w)"
    by (rule github_bad_callback)
next
  assume a: "map_of args ''code'' = Some c \<and> map_of args ''state'' = Some nonce
        \<and> incoming w = Answer r # es \<and> 200 \<le> code r \<and> code r < 300
        \<and> fst (parse_options_header lib (content_type r))
            \<noteq> ''application/x-www-form-urlencoded''
        \<and> fst (parse_options_header lib (content_type r)) \<noteq> ''application/json''"
  then have "check_callback nonce args = Inr c"
    by (simp add: check_callback_Inr)
  then show "\<exists>m w'. github_authenticate lib self nonce url args w
                     = (Inl (AuthenticationError m), w')"
    using a github_unsupported_content_type [of nonce args c w r es lib self url] by blast
next
  assume a: "map_of args ''code'' = Some c \<and> map_of args ''state'' = Some nonce
        \<and> exchange_code lib self c url w = (Inr token, w1)
        \<and> fetch_identity lib self token w1 = (Inr ident, w2)
        \<and> github_authorize lib self ident w2 = (Inr False, w3)"
  then have "check_callback nonce args = Inr c"
    by (simp add: check_callback_Inr)
  then show "\<exists>m. github_authenticate lib self nonce url args w
                  = (Inl (AuthenticationError m), w3)"
    using a github_not_member [of nonce args c lib self url w token w1 ident w2 w3] by blast
next
  assume a: "map_of args ''code'' = Some c \<and> map_of args ''state'' = Some nonce
        \<and> call_fails (incoming w)"
  then have "check_callback nonce args = Inr c"
    by (simp add: check_callback_Inr)
  then show "\<exists>e w'. github_authenticate lib self nonce url args w = (Inl e, w')
                    \<and> is_IOError e"
    using a github_exchange_fails [of nonce args c w lib self url] by blast
qed

lemma github_login_run:
  "fst (github_authenticate example_lib example_org ''nonce0'' ''https://geofront/cb''
          github_callback github_login_world) = Inr example_member"
  by (simp add: github_authenticate_def check_callback_def exchange_code_def
        read_token_data_def fetch_identity_def github_request_def github_authorize_def
        Identity_init_def getitem_def example_lib_def example_org_def example_member_def
        github_callback_def github_login_world_def)

theorem github_authenticate_outcomes_witness:
  "(\<exists>c token w1 w2.
       map_of github_callback ''code'' = Some c
     \<and> map_of github_callback ''state'' = Some ''nonce0''
     \<and> exchange_code example_lib example_org c ''https://geofront/cb'' github_login_world
         = (Inr token, w1)
     \<and> fetch_identity example_lib example_org token w1 = (Inr example_member, w2)
     \<and> fst (github_authorize example_lib example_org example_member w2) = Inr True)
   \<and> github_authenticate example_lib example_org ''nonce1'' ''https://geofront/cb''
        github_callback github_login_world
      = (Inl (AuthenticationError None), github_login_world)
   \<and> (\<exists>e w'. github_authenticate example_lib example_org ''nonce0'' ''https://geofront/cb''
                github_callback offline = (Inl e, w') \<and> is_IOError e)"
proof -
  let ?run = "github_authenticate example_lib example_org ''nonce0'' ''https://geofront/cb''
                github_callback github_login_world"
  have r: "?run = (Inr example_member, snd ?run)"
    using github_login_run by (cases ?run) simp
  have "\<exists>c token w1 w2.
       map_of github_callback ''code'' = Some c
     \<and> map_of github_callback ''state'' = Some ''nonce0''
     \<and> exchange_code example_lib example_org c ''https://geofront/cb'' github_login_world
         = (Inr token, w1)
     \<and> fetch_identity example_lib example_org token w1 = (Inr example_member, w2)
     \<and> github_authorize example_lib example_org example_member w2 = (Inr True, snd ?run)"
    using github_authenticate_outcomes [THEN conjunct1, THEN iffD1, OF r] .
  then have 1: "\<exists>c token w1 w2.
       map_of github_callback ''code'' = Some c
     \<and> map_of github_callback ''state'' = Some ''nonce0''
     \<and> exchange_code example_lib example_org c ''https://geofront/cb'' github_login_world
         = (Inr token, w1)
     \<and> fetch_identity example_lib example_org token w1 = (Inr example_member, w2)
     \<and> fst (github_authorize example_lib example_org example_member w2) = Inr True"
    by fastforce
  have s: "map_of github_callback ''code'' = Some ''c0''"
          "map_of github_callback ''state'' = Some ''nonce0''"
    by (simp_all add: github_callback_def)
  have 2: "github_authenticate example_lib example_org ''nonce1'' ''https://geofront/cb''
        github_callback github_login_world
      = (Inl (AuthenticationError None), github_login_world)"
    using github_authenticate_outcomes
            [where args = github_callback and nonce = "''nonce1''", THEN conjunct2, THEN conjunct1]
          s
    by simp
  have 3: "\<exists>e w'. github_authenticate example_lib example_org ''nonce0'' ''https://geofront/cb''
                github_callback offline = (Inl e, w') \<and> is_IOError e"
    using github_authenticate_outcomes
            [where args = github_callback and nonce = "''nonce0''" and c = "''c0''"
               and w = offline,
             THEN conjunct2, THEN conjunct2, THEN conjunct2, THEN conjunct2]
          s
    by (simp add: offline_def)
  show ?thesis using 1 2 3 by blast
qed

text \<open>
  The claim C1 as stated fails: with the right code and state, a token request that
  cannot connect makes \<open>authenticate\<close> raise \<open>URLError\<close>, not
  \<open>AuthenticationError\<close>.
\<close>

theorem github_authenticate_exchange_failure_counterexample:
  "map_of github_callback ''code'' = Some ''c0''
   \<and> map_of github_callback ''state'' = Some ''nonce0''
   \<and> fst (github_authenticate example_lib example_org ''nonce0'' ''https://geofront/cb''
            github_callback offline) = Inl URLError
   \<and> \<not> is_AuthenticationError URLError"
  by (simp add: github_authenticate_def check_callback_def exchange_code_def getitem_def
        github_callback_def offline_def)

subsection \<open>Rejected callbacks in both backends\<close>

lemma unpack_pair_wrong_length:
  "length xs \<noteq> 2 \<Longrightarrow> unpack_pair (PySeq xs) = Inl ValueError"
  "length s \<noteq> 2 \<Longrightarrow> unpack_pair (PyStr s) = Inl ValueError"
  by (cases "PySeq xs" rule: unpack_pair.cases; simp)
     (cases "PyStr s" rule: unpack_pair.cases; simp)

lemma stash_bad_state:
  assumes "(\<exists>xs. state = PySeq xs \<and> length xs \<noteq> 2) \<or> (\<exists>s. state = PyStr s \<and> length s \<noteq> 2)"
  shows "stash_authenticate lib self state url args w = (Inl (AuthenticationError None), w)"
  using assms by (auto simp: stash_authenticate_def unpack_pair_wrong_length)

lemma stash_token_mismatch:
  assumes "map_of args ''oauth_token'' \<noteq> Some tok"
  shows "stash_authenticate lib self (PySeq [tok, sec]) url args w
         = (Inl (AuthenticationError None), w)"
  using assms by (simp add: stash_authenticate_def)

text \<open>
  C9, as the code has it.  In \<open>GitHubOrganization.authenticate\<close> a callback without
  \<open>code\<close> or \<open>state\<close>, or with a state different from the nonce, raises
  \<open>AuthenticationError\<close> before any request, and so does a token answer whose
  content type is neither form-encoded nor JSON.  In \<open>StashTeam.authenticate\<close> a
  continuation state that is a sequence or string of a length other than two, and a
  callback \<open>oauth_token\<close> different from the request token, raise
  \<open>AuthenticationError\<close> before any request.
\<close>

theorem authenticate_rejects_bad_callback:
  "(map_of args ''code'' = None \<or> map_of args ''state'' \<noteq> Some nonce
      \<longrightarrow> github_authenticate lib org nonce url args w = (Inl (AuthenticationError None), w))
   \<and> (map_of args ''code'' = Some c \<and> map_of args ''state'' = Some nonce
        \<and> incoming w = Answer r # es \<and> 200 \<le> code r \<and> code r < 300
        \<and> fst (parse_options_header lib (content_type r))
            \<noteq> ''application/x-www-form-urlencoded''
        \<and> fst (parse_options_header lib (content_type r)) \<noteq> ''application/json''
        \<longrightarrow> (\<exists>m w'. github_authenticate lib org nonce url args w
                     = (Inl (AuthenticationError m), w')))
   \<and> ((\<exists>xs. state = PySeq xs \<and> length xs \<noteq> 2) \<or> (\<exists>s. state = PyStr s \<and> length s \<noteq> 2)
        \<longrightarrow> stash_authenticate lib steam state url args w = (Inl (AuthenticationError None), w))
   \<and> (map_of args ''oauth_token'' \<noteq> Some tok
        \<longrightarrow> stash_authenticate lib steam (PySeq [tok, sec]) url args w
            = (Inl (AuthenticationError None), w))"
proof (intro conjI impI)
  assume "map_of args ''code'' = None \<or> map_of args ''state'' \<noteq> Some nonce"
  then show "github_authenticate lib org nonce url args w = (Inl (AuthenticationError None), w)"
    by (rule github_bad_callback)
next
  assume a: "map_of args ''code'' = Some c \<and> map_of args ''state'' = Some nonce
        \<and> incoming w = Answer r # es \<and> 200 \<le> code r \<and> code r < 300
        \<and> fst (parse_options_header lib (content_type r))
            \<noteq> ''application/x-www-form-urlencoded''
        \<and> fst (parse_options_header lib (content_type r)) \<noteq> ''application/json''"
  then have "check_callback nonce args = Inr c"
    by (simp add: check_callback_Inr)
  then show "\<exists>m w'. github_authenticate lib org nonce url args w
                     = (Inl (AuthenticationError m), w')"
    using a github_unsupported_content_type [of nonce args c w r es lib org url] by blast
next
  assume "(\<exists>xs. state = PySeq xs \<and> length xs \<noteq> 2) \<or> (\<exists>s. state = PyStr s \<and> length s \<noteq> 2)"
  then show "stash_authenticate lib steam state url args w = (Inl (AuthenticationError None), w)"
    by (rule stash_bad_state)
next
  assume "map_of args ''oauth_token'' \<noteq> Some tok"
  then show "stash_authenticate lib steam (PySeq [tok, sec]) url args w
             = (Inl (AuthenticationError None), w)"
    by (rule stash_token_mismatch)
qed

theorem authenticate_rejects_bad_callback_witness:
  "github_authenticate example_lib example_org ''nonce0'' ''https://geofront/cb''
     [(''code'', ''c0'')] github_login_world
   = (Inl (AuthenticationError None), github_login_world)
   \<and> (\<exists>m w'. github_authenticate example_lib example_org ''nonce0'' ''https://geofront/cb''
               github_callback html_world = (Inl (AuthenticationError m), w'))
   \<and> stash_authenticate example_lib example_team (PySeq [''rt'']) ''https://geofront/cb''
       [(''oauth_token'', ''rt'')] stash_login_world
     = (Inl (AuthenticationError None), stash_login_world)
   \<and> stash_authenticate example_lib example_team (PySeq [''rt'', ''rs''])
       ''https://geofront/cb'' [(''oauth_token'', ''forged'')] stash_login_world
     = (Inl (AuthenticationError None), stash_login_world)"
proof -
  note t = authenticate_rejects_bad_callback
             [where lib = example_lib and org = example_org and steam = example_team
                and url = "''https://geofront/cb''" and nonce = "''nonce0''"]
  have 1: "github_authenticate example_lib example_org ''nonce0'' ''https://geofront/cb''
             [(''code'', ''c0'')] github_login_world
           = (Inl (AuthenticationError None), github_login_world)"
    using t [where args = "[(''code'', ''c0'')]" and w = github_login_world, THEN conjunct1]
    by simp
  have 2: "\<exists>m w'. github_authenticate example_lib example_org ''nonce0''
             ''https://geofront/cb'' github_callback html_world
           = (Inl (AuthenticationError m), w')"
    using t [where args = github_callback and w = html_world and c = "''c0''"
               and r = "\<lparr>code = 200, content_type = Some ''text/html'',
                         body = ''<html></html>'', truncated = False\<rparr>" and es = "[]",
             THEN conjunct2, THEN conjunct1]
    by (simp add: github_callback_def html_world_def example_lib_def)
  have 3: "stash_authenticate example_lib example_team (PySeq [''rt''])
             ''https://geofront/cb'' [(''oauth_token'', ''rt'')] stash_login_world
           = (Inl (AuthenticationError None), stash_login_world)"
    using t [where state = "PySeq [''rt'']" and args = "[(''oauth_token'', ''rt'')]"
               and w = stash_login_world,
             THEN conjunct2, THEN conjunct2, THEN conjunct1]
    by simp
  have 4: "stash_authenticate example_lib example_team (PySeq [''rt'', ''rs''])
             ''https://geofront/cb'' [(''oauth_token'', ''forged'')] stash_login_world
           = (Inl (AuthenticationError None), stash_login_world)"
    using t [where tok = "''rt''" and sec = "''rs''" and args = "[(''oauth_token'', ''forged'')]"
               and w = stash_login_world,
             THEN conjunct2, THEN conjunct2, THEN conjunct2]
    by simp
  show ?thesis using 1 2 3 4 by blast
qed

text \<open>
  The claim C9 as stated fails for \<open>StashTeam.authenticate\<close>: it never looks at the
  content type of the token answer, so an answer of type \<open>text/plain\<close> leads to an
  identity; and a continuation state that is not a sequence at all (\<open>None\<close>) raises
  \<open>TypeError\<close>, which the \<open>except ValueError\<close> clause does not catch.
\<close>

theorem stash_authenticate_content_type_counterexample:
  "incoming stash_login_world =
     [Answer \<lparr>code = 200, content_type = Some ''text/plain'',
              body = ''oauth_token=at&oauth_token_secret=as'', truncated = False\<rparr>,
      Answer \<lparr>code = 200, content_type = Some ''text/plain'', body = ''alice'', truncated = False\<rparr>]
   \<and> fst (parse_options_header example_lib (Some ''text/plain'')) = ''text/plain''
   \<and> fst (stash_authenticate example_lib example_team (PySeq [''rt'', ''rs''])
            ''https://geofront/cb'' [(''oauth_token'', ''rt'')] stash_login_world)
     = Inr \<lparr>team_type = StashTeamC,
            identifier = ''https://stash.example.com/users/alice'',
            access_token = TokenPair ''at'' ''as''\<rparr>
   \<and> fst (stash_authenticate example_lib example_team PyNone
            ''https://geofront/cb'' [(''oauth_token'', ''rt'')] stash_login_world)
     = Inl TypeError"
  by (simp add: stash_login_run)
     (simp add: stash_login_world_def example_lib_def stash_authenticate_def)

subsection \<open>Pagination in the Bitbucket Server key store\<close>

lemma is_page_code: "is_page lib r \<Longrightarrow> code r = 200"
  by (auto simp: is_page_def read_page_def split: if_splits)

lemma request_page_answer:
  assumes "unpack_token (access_token ident) = Inr (tok, sec)"
      and "incoming w = Answer r # es" and "is_page lib r"
  shows "request_page lib self ident start w
         = (read_page lib r,
            \<lparr>incoming = es, sent = sent w @ [list_request lib self tok sec start]\<rparr>)"
  using assms is_page_code [OF assms(3)]
  by (simp add: request_page_def store_request_def team_request_def list_request_def)

lemma is_pageE:
  assumes "is_page lib r"
  obtains payload where "read_page lib r = Inr (page_entries lib r, payload)"
                    and "next_start payload = Inr (page_next lib r)"
  using assms
  by (auto simp: is_page_def page_entries_def page_next_def split: sum.splits prod.splits)

lemma request_pages_complete:
  assumes "complete_listing lib rs"
      and "unpack_token (access_token ident) = Inr (tok, sec)"
      and "incoming w = map Answer rs @ rest"
  shows "request_pages lib self ident start w
         = (Inr (concat (map (page_entries lib) rs)),
            \<lparr>incoming = rest,
             sent = sent w @ map (list_request lib self tok sec) (cursors lib start rs)\<rparr>)"
  using assms
proof (induction lib rs arbitrary: start w rule: complete_listing.induct)
  case (1 lib)
  then show ?case by simp
next
  case (2 lib r)
  then have p: "is_page lib r" and l: "page_next lib r = None" by simp_all
  obtain payload where rp: "read_page lib r = Inr (page_entries lib r, payload)"
      and ns: "next_start payload = Inr (page_next lib r)"
    using p by (rule is_pageE)
  have i: "incoming w = Answer r # rest" using "2.prems"(3) by simp
  have "request_page lib self ident start w
       = (read_page lib r,
          \<lparr>incoming = rest, sent = sent w @ [list_request lib self tok sec start]\<rparr>)"
    by (rule request_page_answer [OF "2.prems"(2) i p])
  then show ?case
    using rp ns l by (subst request_pages.simps) simp
next
  case (3 lib r r' rs)
  then have p: "is_page lib r" and c: "complete_listing lib (r' # rs)" by simp_all
  from 3 obtain n where l: "page_next lib r = Some n" by auto
  obtain payload where rp: "read_page lib r = Inr (page_entries lib r, payload)"
      and ns: "next_start payload = Inr (page_next lib r)"
    using p by (rule is_pageE)
  let ?w1 = "\<lparr>incoming = map Answer (r' # rs) @ rest,
              sent = sent w @ [list_request lib self tok sec start]\<rparr>"
  have i: "incoming w = Answer r # (map Answer (r' # rs) @ rest)" using "3.prems"(3) by simp
  have rq: "request_page lib self ident start w = (read_page lib r, ?w1)"
    by (rule request_page_answer [OF "3.prems"(2) i p])
  have ih: "request_pages lib self ident n ?w1
        = (Inr (concat (map (page_entries lib) (r' # rs))),
           \<lparr>incoming = rest,
            sent = sent ?w1 @ map (list_request lib self tok sec) (cursors lib n (r' # rs))\<rparr>)"
    using c "3.prems"(2) by (intro "3.IH") simp_all
  show ?case
    using rq rp ns l ih by (subst request_pages.simps) simp
qed

lemma length_cursors: "complete_listing lib rs \<Longrightarrow> length (cursors lib start rs) = length rs"
  by (induction lib rs arbitrary: start rule: complete_listing.induct) auto

lemma collect_keys_append:
  "collect_keys lib (xs @ ys) = collect_keys lib xs \<union> collect_keys lib ys"
  by (induction xs) (auto split: sum.splits)

lemma collect_keys_concat:
  "collect_keys lib (concat xss) = (\<Union>xs \<in> set xss. collect_keys lib xs)"
  by (induction xss) (simp_all add: collect_keys_append)

text \<open>
  C6.  On a provider that answers with a complete listing (pages of which exactly the
  last says \<open>isLastPage\<close>), \<open>StashKeyStore.list_keys\<close> of a compatible identity
  sends one request per page: the first with cursor 0, each later one with the
  \<open>nextPageStart\<close> of the page before; it sends nothing after the last page, leaving
  the provider's further answers untouched; and it returns the union of the keys
  parsed from the entries of every page.
\<close>

theorem stash_list_keys_pagination:
  assumes "compatible self ident"
      and "access_token ident = TokenPair tok sec"
      and "complete_listing lib rs"
      and "incoming w = map Answer rs @ rest"
  shows "stash_list_keys lib self ident w
         = (Inr (\<Union>r \<in> set rs. collect_keys lib (page_entries lib r)),
            \<lparr>incoming = rest,
             sent = sent w @ map (list_request lib self tok sec) (cursors lib (JNum 0) rs)\<rparr>)
         \<and> length (cursors lib (JNum 0) rs) = length rs"
proof -
  have u: "unpack_token (access_token ident) = Inr (tok, sec)"
    using assms(2) by simp
  have "request_list lib self ident w
        = (Inr (concat (map (page_entries lib) rs)),
           \<lparr>incoming = rest,
            sent = sent w @ map (list_request lib self tok sec) (cursors lib (JNum 0) rs)\<rparr>)"
    using assms(1) request_pages_complete [OF assms(3) u assms(4)]
    by (simp add: request_list_def)
  then show ?thesis
    using length_cursors [OF assms(3)]
    by (simp add: stash_list_keys_def collect_keys_concat)
qed

lemma paged_world_listing:
  "complete_listing example_lib
     [json_answer 200 ''page0'', json_answer 200 ''page2'', json_answer 200 ''page4'']"
  by (simp add: is_page_def page_next_def read_page_def next_start_def json_answer_def
        example_lib_def key_entry_def)

theorem stash_list_keys_pagination_witness:
  "stash_list_keys example_lib example_store stash_user paged_world
   = (Inr {''key1'', ''key2'', ''key3'', ''key4'', ''key5''},
      \<lparr>incoming = [Answer (json_answer 200 ''unread'')],
       sent = [list_request example_lib example_store ''at'' ''as'' (JNum 0),
               list_request example_lib example_store ''at'' ''as'' (JNum 2),
               list_request example_lib example_store ''at'' ''as'' (JNum 4)]\<rparr>)
   \<and> map (list_url example_lib example_store) [JNum 0, JNum 2, JNum 4]
     = [''https://stash.example.com/rest/ssh/1.0/keys?start=0'',
        ''https://stash.example.com/rest/ssh/1.0/keys?start=2'',
        ''https://stash.example.com/rest/ssh/1.0/keys?start=4'']"
proof -
  have a: "compatible example_store stash_user"
    by (simp add: compatible_def example_store_def stash_user_def example_team_def
          StashTeam_init_def rstrip_slash_def)
  have b: "access_token stash_user = TokenPair ''at'' ''as''"
    by (simp add: stash_user_def)
  have d: "incoming paged_world
           = map Answer [json_answer 200 ''page0'', json_answer 200 ''page2'',
                         json_answer 200 ''page4''] @ [Answer (json_answer 200 ''unread'')]"
    by (simp add: paged_world_def)
  have e: "page_entries example_lib (json_answer 200 ''page0'')
             = [key_entry 1 ''key1'', key_entry 2 ''key2'']"
          "page_entries example_lib (json_answer 200 ''page2'')
             = [key_entry 3 ''key3'', key_entry 4 ''key4'']"
          "page_entries example_lib (json_answer 200 ''page4'') = [key_entry 5 ''key5'']"
    by (simp_all add: page_entries_def read_page_def json_answer_def example_lib_def)
  have n: "page_next example_lib (json_answer 200 ''page0'') = Some (JNum 2)"
          "page_next example_lib (json_answer 200 ''page2'') = Some (JNum 4)"
    by (simp_all add: page_next_def read_page_def next_start_def json_answer_def example_lib_def)
  have k: "parse_entry example_lib (key_entry i t) = (if t = ''garbage'' then Inl ParseError else Inr t)"
    for i t
    by (simp add: parse_entry_def key_entry_def example_lib_def)
  have u: "map (list_url example_lib example_store) [JNum 0, JNum 2, JNum 4]
     = [''https://stash.example.com/rest/ssh/1.0/keys?start=0'',
        ''https://stash.example.com/rest/ssh/1.0/keys?start=2'',
        ''https://stash.example.com/rest/ssh/1.0/keys?start=4'']"
    by (simp add: list_url_def py_str_def string_of_nat.simps example_store_def
          example_team_def StashTeam_init_def rstrip_slash_def)
  show ?thesis
    using stash_list_keys_pagination [OF a b paged_world_listing d] u
    by (auto simp: e n k paged_world_def)
qed

subsection \<open>Identities the key store is not configured for\<close>

text \<open>
  C3, as the code has it.  When the identity is not compatible with a
  \<open>StashKeyStore\<close> (the store's team is not an instance of the identity's team type,
  or the identifier does not start with the team's server URL), \<open>register\<close>,
  \<open>list_keys\<close> and \<open>deregister\<close> send nothing and do nothing, and \<open>list_keys\<close>
  returns the empty set.
\<close>

theorem stash_key_store_incompatible_noop:
  assumes "\<not> issubclass (team_cls (team self)) (team_type ident)
           \<or> \<not> prefix (server_url (team self)) (identifier ident)"
  shows "stash_register lib self ident public_key w = (Inr (), w)
         \<and> stash_list_keys lib self ident w = (Inr {}, w)
         \<and> stash_deregister lib self ident public_key w = (Inr (), w)"
proof -
  have "\<not> compatible self ident"
    using assms by (auto simp: compatible_def)
  then show ?thesis
    by (simp add: stash_register_def stash_list_keys_def request_list_def stash_deregister_def)
qed

theorem stash_key_store_incompatible_noop_witness:
  "stash_register example_lib example_store example_member ''key1'' paged_world
     = (Inr (), paged_world)
   \<and> stash_list_keys example_lib example_store example_member paged_world
     = (Inr {}, paged_world)
   \<and> stash_deregister example_lib example_store example_member ''key1'' paged_world
     = (Inr (), paged_world)"
proof -
  have "\<not> issubclass (team_cls (team example_store)) (team_type example_member)
        \<or> \<not> prefix (server_url (team example_store)) (identifier example_member)"
    by (simp add: example_store_def example_team_def StashTeam_init_def example_member_def)
  then show ?thesis
    by (rule stash_key_store_incompatible_noop)
qed

text \<open>
  The claim C3 as stated fails for \<open>GitHubKeyStore\<close>, which has no configuration and
  no guard.  With an identity made by \<open>StashTeam\<close>, \<open>list_keys\<close> raises
  \<open>TypeError\<close> on the token pair instead of returning the empty set; with an identity
  of another team type that carries a string token, it sends its request with that
  token and returns what the provider lists.
\<close>

theorem github_key_store_no_guard_counterexample:
  "\<not> issubclass (team_type stash_user) GitHubOrganizationC
   \<and> github_list_keys example_lib stash_user (one_answer 200 ''one key'')
     = (Inl TypeError, one_answer 200 ''one key'')
   \<and> \<not> issubclass (team_type outsider) GitHubOrganizationC
   \<and> \<not> issubclass GitHubOrganizationC (team_type outsider)
   \<and> github_list_keys example_lib outsider (one_answer 200 ''one key'')
     = (Inr [\<lparr>algorithm = ''ssh-rsa'', material = ''key7'', comment = None\<rparr>],
        \<lparr>incoming = [],
         sent = [\<lparr>rq_method = ''GET'', rq_url = ''https://api.github.com/user/keys'',
                  rq_data = None,
                  rq_headers = [(''Authorization'', ''token t0''),
                                (''Accept'', ''application/json'')],
                  rq_signed_by = None\<rparr>]\<rparr>)"
  by (simp add: outsider_def stash_user_def github_list_keys_def github_request_def
        one_answer_def json_answer_def example_lib_def LIST_URL_def github_key_def
        parse_key_line_def add_key_def)

subsection \<open>Entries that do not parse\<close>

lemma collect_keys_eq:
  "collect_keys lib keys = {k. \<exists>key \<in> set keys. parse_entry lib key = Inr k}"
  by (induction keys) (auto split: sum.splits)

text \<open>
  In \<open>StashKeyStore.list_keys\<close> an entry that does not parse is skipped and its
  siblings are returned.
\<close>

lemma stash_list_keys_skips_malformed:
  "stash_list_keys example_lib example_store stash_user (one_answer 200 ''mixed page'')
   = (Inr {''key7''},
      \<lparr>incoming = [],
       sent = [list_request example_lib example_store ''at'' ''as'' (JNum 0)]\<rparr>)"
  by (simp add: stash_list_keys_def request_list_def compatible_def request_pages.simps
        request_page_def store_request_def team_request_def read_page_def next_start_def
        parse_entry_def list_request_def key_entry_def one_answer_def json_answer_def
        example_lib_def example_store_def example_team_def StashTeam_init_def
        rstrip_slash_def stash_user_def)

text \<open>
  C2 fails in \<open>GitHubKeyStore.list_keys\<close>: the set comprehension has no handler, so
  on a listing of one malformed and one well-formed key the call raises the parser's
  exception and returns nothing.
\<close>

theorem github_list_keys_malformed_entry:
  "github_list_keys example_lib example_member (one_answer 200 ''mixed keys'')
   = (Inl ParseError,
      \<lparr>incoming = [],
       sent = [\<lparr>rq_method = ''GET'', rq_url = ''https://api.github.com/user/keys'',
                rq_data = None,
                rq_headers = [(''Authorization'', ''token t0''),
                              (''Accept'', ''application/json'')],
                rq_signed_by = None\<rparr>]\<rparr>)"
  by (simp add: example_member_def github_list_keys_def github_request_def one_answer_def
        json_answer_def example_lib_def LIST_URL_def github_key_def parse_key_line_def)

subsection \<open>Registering a key the provider already has\<close>

text \<open>
  With a compatible identity \<open>StashKeyStore.register\<close> never reaches the provider:
  formatting \<open>REGISTER_URL\<close> with the key store raises \<open>AttributeError\<close>.
\<close>

lemma stash_register_compatible:
  "compatible self ident \<Longrightarrow> stash_register lib self ident public_key w = (Inl AttributeError, w)"
  by (simp add: stash_register_def)

text \<open>
  C4 fails in both key stores.  Against a Bitbucket Server that would answer 409 with
  an error payload, \<open>StashKeyStore.register\<close> raises \<open>AttributeError\<close> and sends
  nothing; against a GitHub that answers 422 with such a payload,
  \<open>GitHubKeyStore.register\<close> lets the \<open>HTTPError\<close> through.  Neither raises
  \<open>DuplicatePublicKeyError\<close>.
\<close>

theorem register_duplicate_key:
  "stash_register example_lib example_store stash_user ''key5'' (one_answer 409 ''conflict'')
     = (Inl AttributeError, one_answer 409 ''conflict'')
   \<and> github_register example_lib example_member key7 (one_answer 422 ''conflict'')
     = (Inl (HTTPError (json_answer 422 ''conflict'')),
        \<lparr>incoming = [],
         sent = [\<lparr>rq_method = ''POST'', rq_url = ''https://api.github.com/user/keys'',
                  rq_data = Some ''{}'',
                  rq_headers = [(''Authorization'', ''token t0''),
                                (''Accept'', ''application/json'')],
                  rq_signed_by = None\<rparr>]\<rparr>)"
proof -
  have "compatible example_store stash_user"
    by (simp add: compatible_def example_store_def stash_user_def example_team_def
          StashTeam_init_def rstrip_slash_def)
  then have "stash_register example_lib example_store stash_user ''key5''
               (one_answer 409 ''conflict'')
             = (Inl AttributeError, one_answer 409 ''conflict'')"
    by (rule stash_register_compatible)
  then show ?thesis
    by (simp add: github_register_def github_request_def example_member_def one_answer_def
          json_answer_def example_lib_def LIST_URL_def)
qed

subsection \<open>Deregistering a key\<close>

text \<open>
  C5 fails in \<open>StashKeyStore.deregister\<close>: when an entry of the listing equals the
  key, the call of the template string raises \<open>TypeError\<close>; the listing request is
  the only request sent, and the provider's answer to a \<open>DELETE\<close> stays unread.
\<close>

theorem stash_deregister_present_key:
  "stash_deregister example_lib example_store stash_user ''key5'' deregister_world
   = (Inl TypeError,
      \<lparr>incoming = [Answer \<lparr>code = 204, content_type = None, body = [], truncated = False\<rparr>],
       sent = [list_request example_lib example_store ''at'' ''as'' (JNum 0)]\<rparr>)"
  by (simp add: stash_deregister_def compatible_def deregister_from.simps delete_entry_def
        request_page_def store_request_def team_request_def read_page_def next_start_def
        parse_entry_def list_request_def key_entry_def deregister_world_def json_answer_def
        example_lib_def example_store_def example_team_def StashTeam_init_def
        rstrip_slash_def stash_user_def)

text \<open>
  Whatever the provider lists, \<open>StashKeyStore.deregister\<close> sends no request other
  than listing requests, so it never deletes anything.
\<close>

lemma request_page_sends_get:
  "request_page lib self ident start w = (res, w') \<Longrightarrow>
   \<exists>rqs. sent w' = sent w @ rqs \<and> (\<forall>rq \<in> set rqs. rq_method rq = ''GET'')"
  by (auto simp: request_page_def store_request_def team_request_def
           split: sum.splits prod.splits list.splits net_event.splits if_splits)

lemma deregister_from_only_gets:
  "deregister_from lib self ident public_key start w = (res, w') \<Longrightarrow>
   \<exists>rqs. sent w' = sent w @ rqs \<and> (\<forall>rq \<in> set rqs. rq_method rq = ''GET'')"
proof (induction lib self ident public_key start w arbitrary: res w'
       rule: deregister_from.induct)
  case (1 lib self ident public_key start w)
  obtain r w1 where rp: "request_page lib self ident start w = (r, w1)"
    by (cases "request_page lib self ident start w")
  obtain rqs1 where s1: "sent w1 = sent w @ rqs1" "\<forall>rq \<in> set rqs1. rq_method rq = ''GET''"
    using request_page_sends_get [OF rp] by blast
  show ?case
  proof (cases r)
    case (Inl e)
    then show ?thesis
      using "1.prems" rp s1 by (subst (asm) deregister_from.simps) auto
  next
    case (Inr page)
    obtain entries payload where page: "page = (entries, payload)" by (cases page)
    show ?thesis
    proof (cases "find_key lib public_key entries")
      case (Inl e)
      then show ?thesis
        using "1.prems" rp s1 Inr page by (subst (asm) deregister_from.simps) auto
    next
      case found: (Inr found)
      show ?thesis
      proof (cases found)
        case (Some key)
        then show ?thesis
          using "1.prems" rp s1 Inr page found
          by (subst (asm) deregister_from.simps)
             (auto simp: delete_entry_def split: sum.splits)
      next
        case None
        show ?thesis
        proof (cases "next_start payload")
          case (Inl e)
          then show ?thesis
            using "1.prems" rp s1 Inr page found None
            by (subst (asm) deregister_from.simps) auto
        next
          case nx: (Inr nx)
          show ?thesis
          proof (cases nx)
            case None': None
            then show ?thesis
              using "1.prems" rp s1 Inr page found None nx
              by (subst (asm) deregister_from.simps) auto
          next
            case (Some n)
            have rec: "deregister_from lib self ident public_key n w1 = (res, w')"
              using "1.prems" rp Inr page found None nx Some
              by (subst (asm) deregister_from.simps) simp
            obtain rqs2 where s2: "sent w' = sent w1 @ rqs2"
                "\<forall>rq \<in> set rqs2. rq_method rq = ''GET''"
              using "1.IH" [OF rp [symmetric] Inr page [symmetric] found None nx Some rec]
              by blast
            show ?thesis
              using s1 s2 by (intro exI [of _ "rqs1 @ rqs2"]) auto
          qed
        qed
      qed
    qed
  qed
qed

text \<open>
  \<open>GitHubKeyStore.deregister\<close> does what \<open>StashKeyStore.deregister\<close> misses.  When
  every entry parses and none equals the key, nothing is sent after the listing; the
  first entry that equals the key over algorithm and material is deleted by its id,
  and the loop ends there.
\<close>

lemma deregister_loop_no_match:
  assumes "\<forall>key \<in> set ks. \<exists>k. parse_key_line lib key = Inr k \<and> \<not> pk_eq k public_key"
  shows "deregister_loop lib ident public_key ks w = (Inr (), w)"
  using assms by (induction ks) auto

lemma deregister_loop_first_match:
  assumes "\<forall>key \<in> set pre. \<exists>k. parse_key_line lib key = Inr k \<and> \<not> pk_eq k public_key"
      and "parse_key_line lib key = Inr k" and "pk_eq k public_key"
      and "deregister_url lib key = Inr url"
  shows "deregister_loop lib ident public_key (pre @ key # post) w
         = (case github_request lib (access_token ident) url ''DELETE'' None w of
              (Inl e, w1) \<Rightarrow> (Inl e, w1)
            | (Inr r, w1) \<Rightarrow> (Inr (), w1))"
  using assms by (induction pre) auto

lemma github_deregister_ignores_comment:
  "comment key7 = Some ''laptop''
   \<and> github_deregister example_lib example_member key7 github_delete_world
     = (Inr (),
        \<lparr>incoming = [],
         sent = [\<lparr>rq_method = ''GET'', rq_url = ''https://api.github.com/user/keys'',
                  rq_data = None,
                  rq_headers = [(''Authorization'', ''token t0''),
                                (''Accept'', ''application/json'')],
                  rq_signed_by = None\<rparr>,
                 \<lparr>rq_method = ''DELETE'', rq_url = ''https://api.github.com/user/keys/7'',
                  rq_data = None,
                  rq_headers = [(''Authorization'', ''token t0''),
                                (''Accept'', ''application/json'')],
                  rq_signed_by = None\<rparr>]\<rparr>)"
  by (simp add: github_deregister_def github_request_def deregister_url_def py_str_def
        string_of_nat.simps parse_key_line_def pk_eq_def key7_def github_key_def
        github_delete_world_def json_answer_def example_lib_def example_member_def
        LIST_URL_def)

text \<open>Neither \<open>register\<close> can raise \<open>DuplicatePublicKeyError\<close>, whatever the provider answers.\<close>

lemma stash_register_never_duplicate:
  "fst (stash_register lib self ident public_key w) \<noteq> Inl (DuplicatePublicKeyError m)"
  by (simp add: stash_register_def)

lemma github_register_never_duplicate:
  "fst (github_register lib ident public_key w) \<noteq> Inl (DuplicatePublicKeyError m)"
  by (auto simp: github_register_def github_request_def read_body_def Let_def
           split: access_token.splits sum.splits prod.splits list.splits net_event.splits
                  option.splits if_splits)

end
